theory Spec2Isabelle
  imports Complex_Main
begin

section \<open>Data model\<close>

text \<open>
  The scanner works on JSON objects returned by the company registry and on dictionaries
  it builds itself. An object received from the registry is a record whose fields are
  optional (the key may be missing, and the code reads it with \<open>.get\<close> or tests
  \<open>in\<close>); a dictionary the program builds is a record with every field present.
  Python's unbounded integers are \<open>int\<close>, strings are byte strings.
\<close>

datatype py_error = KeyError string

record address =
  address_line_1 :: "string option"
  address_line_2 :: "string option"
  locality :: "string option"
  postal_code :: "string option"

text \<open>The company profile; \<open>profile_status\<close> is its key \<open>company_status\<close>.\<close>

record company_profile =
  company_name :: "string option"
  profile_status :: "string option"
  registered_office_address :: "address option"

text \<open>A hit of the company search.\<close>

record search_hit =
  title :: "string option"
  company_number :: "string option"
  company_status :: "string option"
  date_of_creation :: "string option"
  address_snippet :: "string option"
  found_by :: "string option"

text \<open>An item of the officer list, as the registry returns it.\<close>

record officer_item =
  item_name :: "string option"
  item_officer_role :: "string option"
  item_appointed_on :: "string option"
  item_resigned_on :: "string option"

text \<open>
  An entry of \<open>linked_companies\<close> (keys \<open>company_number\<close>, \<open>title\<close>,
  \<open>status\<close>, \<open>date_of_creation\<close>) and the officer entry that
  \<open>deep_scan_company\<close> builds.
\<close>

record linked_company =
  lc_company_number :: string
  lc_title :: string
  lc_status :: string
  lc_date_of_creation :: string

record officer_entry =
  name :: string
  role :: string
  appointed_on :: string
  resigned_on :: string
  linked_companies :: "linked_company list"
  dissolved_links :: int
  liquidation_links :: int
  recent_formations :: int

text \<open>A charge; \<open>charge_status\<close> is its key \<open>status\<close>.\<close>

record charge =
  charge_status :: "string option"

text \<open>
  Filing-history items, PSC items and the insolvency record are never looked into by the
  code under study: they are kept as lists of key/value pairs. The insolvency record is
  tested for truth only, and an empty dictionary is false.
\<close>

type_synonym json_object = "(string \<times> string) list"

record indicator =
  ind_type :: string
  severity :: string
  description :: string

text \<open>
  The report dictionary. \<open>risk_score\<close> and \<open>phoenix_indicators\<close> exist from
  the start; the keys \<open>is_phoenix\<close>, \<open>phoenix_confidence\<close>,
  \<open>phoenix_reasons\<close> and \<open>risk_level\<close> exist only once
  \<open>calculate_risk\<close> has stored them.
\<close>

record report =
  company :: company_profile
  officers :: "officer_entry list"
  filing_history :: "json_object list"
  psc :: "json_object list"
  charges :: "charge list"
  insolvency :: json_object
  similar_companies :: "search_hit list"
  flags :: "string list"
  risk_score :: int
  phoenix_indicators :: "indicator list"
  is_phoenix :: "string option"
  phoenix_confidence :: "int option"
  phoenix_reasons :: "string list option"
  risk_level :: "string option"

section \<open>Library functions\<close>

text \<open>\<open>d.get(key, default)\<close> on an optional field.\<close>

definition dict_get :: "'a option \<Rightarrow> 'a \<Rightarrow> 'a" where
  "dict_get v d = (case v of None \<Rightarrow> d | Some x \<Rightarrow> x)"

text \<open>
  \<open>str.lower\<close>, on the ASCII letters; no property below depends on what it does
  to a letter.
\<close>

definition lower_char :: "char \<Rightarrow> char" where
  "lower_char c =
     (if 65 \<le> (of_char c :: nat) \<and> (of_char c :: nat) \<le> 90
      then char_of ((of_char c :: nat) + 32) else c)"

definition lower :: "string \<Rightarrow> string" where
  "lower s = map lower_char s"

text \<open>\<open>str(n)\<close> for an integer.\<close>

fun str_nat :: "nat \<Rightarrow> string" where
  "str_nat n =
     (if n < 10 then [''0123456789'' ! n]
      else str_nat (n div 10) @ [''0123456789'' ! (n mod 10)])"

declare str_nat.simps [simp del]

definition str_int :: "int \<Rightarrow> string" where
  "str_int i = (if i < 0 then ''-'' @ str_nat (nat (- i)) else str_nat (nat i))"

text \<open>
  The format \<open>{x:.0f}\<close>: the nearest integer, a tie going to the even one.
\<close>

definition round_half_even :: "rat \<Rightarrow> int" where
  "round_half_even x =
     (let f = \<lfloor>x\<rfloor>; r = x - of_int f
      in if r < 1 / 2 then f
         else if 1 / 2 < r then f + 1
         else if even f then f else f + 1)"

definition format_0f :: "rat \<Rightarrow> string" where
  "format_0f x = str_int (round_half_even x)"

text \<open>\<open>' '.join(parts)\<close>.\<close>

fun join_space :: "string list \<Rightarrow> string" where
  "join_space [] = []"
| "join_space [p] = p"
| "join_space (p # q # ps) = p @ '' '' @ join_space (q # ps)"

text \<open>
  \<open>SequenceMatcher(None, a, b).ratio() * 100\<close> comes from the standard library and
  is a floating-point number. The scorer takes it as a parameter: a \<open>matcher\<close> gives,
  for two strings, the exact value of that float (every finite float is a rational), so
  that the comparisons with 70 and 85 are the comparisons the code makes.
\<close>

type_synonym matcher = "string \<Rightarrow> string \<Rightarrow> rat"

section \<open>The scorer\<close>

definition build_address_string :: "company_profile \<Rightarrow> string" where
  "build_address_string c =
     (case registered_office_address c of
        None \<Rightarrow> []
      | Some addr \<Rightarrow>
          join_space
            (concat
              (map (\<lambda>field. case field addr of
                                 None \<Rightarrow> []
                               | Some v \<Rightarrow> if v \<noteq> [] then [v] else [])
                [address_line_1, address_line_2, locality, postal_code])))"

text \<open>
  The local variables of \<open>calculate_risk\<close> that its rule blocks share:
  \<open>score\<close> is the local \<open>risk_score\<close>. The list \<open>officer_flags\<close>
  of the source is written but never read, and is left out.
\<close>

record locals =
  score :: int
  indicators :: "indicator list"
  name_recycling_dissolved :: "search_hit list"
  phoenix_directors :: "officer_entry list"
  serial_directors :: "officer_entry list"
  address_matches :: "search_hit list"

definition suspicious_statuses :: "string list" where
  "suspicious_statuses =
     [''dissolved'', ''liquidation'', ''insolvency-proceedings'', ''receivership'',
      ''administration'']"

text \<open>\<open>risk_score += delta\<close> followed by \<open>indicators.append({...})\<close>.\<close>

definition add_indicator :: "int \<Rightarrow> string \<Rightarrow> string \<Rightarrow> string \<Rightarrow> locals \<Rightarrow> locals" where
  "add_indicator delta ty sev descr l =
     l\<lparr>score := score l + delta,
       indicators := indicators l @ [\<lparr>ind_type = ty, severity = sev, description = descr\<rparr>]\<rparr>"

text \<open>Source lines 231 to 237: the status of the company itself.\<close>

definition status_rule :: "company_profile \<Rightarrow> locals \<Rightarrow> locals" where
  "status_rule c l =
     (let company_status = dict_get (profile_status c) []
      in if company_status \<in> set suspicious_statuses
         then add_indicator 30 ''company_status'' ''high''
                (''Company status is: '' @ company_status) l
         else l)"

text \<open>
  Source lines 241 to 265: the body of the loop over the similar companies. The
  description reads \<open>similar['title']\<close>, which raises \<open>KeyError\<close> when the
  hit has no title.
\<close>

definition similar_step :: "matcher \<Rightarrow> string \<Rightarrow> locals \<Rightarrow> search_hit \<Rightarrow> py_error + locals" where
  "similar_step ratio_pct company_name_lc l similar =
     (let similar_name = lower (dict_get (title similar) []);
          similar_status = dict_get (company_status similar) [];
          similar_number = dict_get (company_number similar) [];
          similarity = ratio_pct company_name_lc similar_name
      in if similar_status \<in> set [''dissolved'', ''liquidation'', ''insolvency-proceedings'']
         then
           if 70 \<le> similarity
           then
             (let l' = l\<lparr>name_recycling_dissolved := name_recycling_dissolved l @ [similar]\<rparr>
              in if 85 \<le> similarity
                 then (case title similar of
                         None \<Rightarrow> Inl (KeyError ''title'')
                       | Some t \<Rightarrow>
                           Inr (add_indicator 25 ''high_name_similarity'' ''high''
                                  (''Very similar name to dissolved company: '' @ t @ '' ('' @
                                   similar_number @ '') - '' @ format_0f similarity @ ''% match'')
                                  l'))
                 else if 70 \<le> similarity
                 then (case title similar of
                         None \<Rightarrow> Inl (KeyError ''title'')
                       | Some t \<Rightarrow>
                           Inr (add_indicator 15 ''name_similarity'' ''medium''
                                  (''Similar name to dissolved company: '' @ t @ '' ('' @
                                   similar_number @ '') - '' @ format_0f similarity @ ''% match'')
                                  l'))
                 else Inr l')
           else Inr l
         else Inr l)"

fun similar_loop :: "matcher \<Rightarrow> string \<Rightarrow> locals \<Rightarrow> search_hit list \<Rightarrow> py_error + locals" where
  "similar_loop ratio_pct company_name_lc l [] = Inr l"
| "similar_loop ratio_pct company_name_lc l (similar # rest) =
     (case similar_step ratio_pct company_name_lc l similar of
        Inl e \<Rightarrow> Inl e
      | Inr l' \<Rightarrow> similar_loop ratio_pct company_name_lc l' rest)"

text \<open>Source lines 267 to 280: name recycling.\<close>

definition recycling_rule :: "locals \<Rightarrow> locals" where
  "recycling_rule l =
     (let n = length (name_recycling_dissolved l)
      in if 3 \<le> n
         then add_indicator 30 ''name_recycling'' ''critical''
                (str_nat n @ '' dissolved companies with similar names found - strong name recycling pattern'') l
         else if 2 \<le> n
         then add_indicator 20 ''name_recycling'' ''high''
                (str_nat n @ '' dissolved companies with similar names found - possible name recycling'') l
         else l)"

text \<open>
  Source lines 285 to 332: the body of the loop over the officers. \<open>officer_risk\<close>
  is summed over the three rules and added to the score at the end of the body.
\<close>

definition append_indicator :: "string \<Rightarrow> string \<Rightarrow> string \<Rightarrow> locals \<Rightarrow> locals" where
  "append_indicator ty sev descr l =
     l\<lparr>indicators := indicators l @ [\<lparr>ind_type = ty, severity = sev, description = descr\<rparr>]\<rparr>"

definition officer_step :: "locals \<Rightarrow> officer_entry \<Rightarrow> locals" where
  "officer_step l officer =
     (let (risk1, l1) =
            (if 3 \<le> dissolved_links officer
             then (30,
                   append_indicator ''serial_dissolutions'' ''critical''
                     (name officer @ '' has '' @ str_int (dissolved_links officer) @ '' dissolved companies'')
                     (l\<lparr>serial_directors := serial_directors l @ [officer]\<rparr>))
             else if 2 \<le> dissolved_links officer
             then (20,
                   append_indicator ''multiple_dissolutions'' ''high''
                     (name officer @ '' has '' @ str_int (dissolved_links officer) @ '' dissolved companies'')
                     l)
             else (0, l));
          (risk2, l2) =
            (if 2 \<le> liquidation_links officer
             then (risk1 + 40,
                   append_indicator ''liquidation_pattern'' ''critical''
                     (name officer @ '' linked to '' @ str_int (liquidation_links officer) @
                      '' companies in liquidation/insolvency'')
                     l1)
             else if 1 \<le> liquidation_links officer
             then (risk1 + 20,
                   append_indicator ''liquidation_history'' ''high''
                     (name officer @ '' linked to '' @ str_int (liquidation_links officer) @
                      '' company in liquidation/insolvency'')
                     l1)
             else (risk1, l1));
          (risk3, l3) =
            (if 1 \<le> dissolved_links officer \<and> 1 \<le> recent_formations officer
             then (risk2 + 25,
                   append_indicator ''phoenix_director_pattern'' ''high''
                     (name officer @ '': '' @ str_int (dissolved_links officer) @
                      '' dissolved companies + '' @ str_int (recent_formations officer) @
                      '' recent formations (potential phoenix activity)'')
                     (l2\<lparr>phoenix_directors := phoenix_directors l2 @ [officer]\<rparr>))
             else (risk2, l2))
      in l3\<lparr>score := score l3 + risk3\<rparr>)"

text \<open>Source lines 334 to 358: address recycling.\<close>

definition address_rule :: "matcher \<Rightarrow> company_profile \<Rightarrow> search_hit list \<Rightarrow> locals \<Rightarrow> locals" where
  "address_rule ratio_pct c similars l =
     (let target_address = build_address_string c
      in if target_address \<noteq> []
         then
           (let matches =
                  filter (\<lambda>similar. case address_snippet similar of
                                       None \<Rightarrow> False
                                     | Some snippet \<Rightarrow>
                                         85 < ratio_pct (lower target_address) (lower snippet))
                    similars;
                l' = l\<lparr>address_matches := matches\<rparr>;
                n = length matches
            in if 5 \<le> n
               then add_indicator 35 ''address_recycling'' ''critical''
                      (str_nat n @ '' companies with same/similar addresses - strong address recycling pattern'') l'
               else if 3 \<le> n
               then add_indicator 25 ''address_recycling'' ''high''
                      (str_nat n @ '' companies with same/similar addresses - possible address recycling'') l'
               else l')
         else l)"

text \<open>Source lines 360 to 377: outstanding charges, and the insolvency record.\<close>

definition charges_rule :: "charge list \<Rightarrow> locals \<Rightarrow> locals" where
  "charges_rule cs l =
     (if cs \<noteq> []
      then
        (let outstanding = length (filter (\<lambda>ch. charge_status ch = Some ''outstanding'') cs)
         in if 0 < outstanding
            then add_indicator 10 ''outstanding_charges'' ''medium''
                   (str_nat outstanding @ '' outstanding charges/mortgages on company'') l
            else l)
      else l)"

definition insolvency_rule :: "json_object \<Rightarrow> locals \<Rightarrow> locals" where
  "insolvency_rule ins l =
     (if ins \<noteq> []
      then add_indicator 40 ''insolvency_history'' ''critical''
             ''Company has insolvency proceedings on record'' l
      else l)"

definition risk_level_of :: "int \<Rightarrow> string" where
  "risk_level_of r =
     (if 70 \<le> r then ''CRITICAL''
      else if 50 \<le> r then ''HIGH''
      else if 30 \<le> r then ''MEDIUM''
      else ''LOW'')"

text \<open>
  Source lines 390 to 437: the phoenix verdict. Each rule adds to
  \<open>phoenix_confidence\<close> and appends a reason; \<open>checked\<close> tells whether the
  branch goes on with \<open>if phoenix_confidence >= 60: is_phoenix = True\<close> (the two
  \<open>elif\<close> branches do not).
\<close>

record verdict =
  phoenix :: bool
  confidence :: int
  reasons :: "string list"

definition add_confidence :: "int \<Rightarrow> string \<Rightarrow> bool \<Rightarrow> verdict \<Rightarrow> verdict" where
  "add_confidence delta reason checked v =
     (let c = confidence v + delta
      in \<lparr>phoenix = (if checked \<and> 60 \<le> c then True else phoenix v),
          confidence = c,
          reasons = reasons v @ [reason]\<rparr>)"

definition directors_rule :: "locals \<Rightarrow> verdict \<Rightarrow> verdict" where
  "directors_rule l v =
     (let n = length (phoenix_directors l)
      in if 2 \<le> n
         then add_confidence 40
                (str_nat n @ '' directors show phoenix patterns (dissolved companies + recent formations)'')
                True v
         else if 1 \<le> n
         then add_confidence 25
                (str_nat n @ '' director shows phoenix pattern (dissolved companies + recent formations)'')
                False v
         else v)"

definition liquidation_rule :: "officer_entry list \<Rightarrow> verdict \<Rightarrow> verdict" where
  "liquidation_rule offs v =
     (let high_liquidation_directors = filter (\<lambda>d. 2 \<le> liquidation_links d) offs
      in if high_liquidation_directors \<noteq> []
         then add_confidence 35
                (str_nat (length high_liquidation_directors) @
                 '' director(s) linked to multiple liquidations/insolvencies'')
                True v
         else v)"

definition name_rule :: "locals \<Rightarrow> verdict \<Rightarrow> verdict" where
  "name_rule l v =
     (let n = length (name_recycling_dissolved l)
      in if 3 \<le> n
         then add_confidence 30
                (''Name recycling detected: '' @ str_nat n @ '' similar dissolved companies'')
                True v
         else if 2 \<le> n
         then add_confidence 20
                (''Possible name recycling: '' @ str_nat n @ '' similar dissolved companies'')
                False v
         else v)"

definition insolvency_directors_rule :: "locals \<Rightarrow> verdict \<Rightarrow> verdict" where
  "insolvency_directors_rule l v =
     (let has_insolvency = list_ex (\<lambda>ind. ind_type ind = ''insolvency_history'') (indicators l);
          has_phoenix_directors = (0 < length (phoenix_directors l))
      in if has_insolvency \<and> has_phoenix_directors
         then add_confidence 30
                ''Insolvency history combined with directors forming new companies'' True v
         else v)"

definition address_name_rule :: "locals \<Rightarrow> verdict \<Rightarrow> verdict" where
  "address_name_rule l v =
     (if 3 \<le> length (address_matches l) \<and> 2 \<le> length (name_recycling_dissolved l)
      then add_confidence 25 ''Multiple companies with same address and similar names'' True v
      else v)"

definition serial_name_rule :: "locals \<Rightarrow> verdict \<Rightarrow> verdict" where
  "serial_name_rule l v =
     (if 1 \<le> length (serial_directors l) \<and> 2 \<le> length (name_recycling_dissolved l)
      then add_confidence 20
             (str_nat (length (serial_directors l)) @ '' serial director(s) with name recycling pattern'')
             True v
      else v)"

definition phoenix_rules :: "locals \<Rightarrow> officer_entry list \<Rightarrow> verdict" where
  "phoenix_rules l offs =
     serial_name_rule l
       (address_name_rule l
         (insolvency_directors_rule l
           (name_rule l
             (liquidation_rule offs
               (directors_rule l \<lparr>phoenix = False, confidence = 0, reasons = []\<rparr>)))))"

text \<open>
  The rule blocks of source lines 223 to 377 in their order; the loop over the similar
  companies is the only one that can raise.
\<close>

definition initial_locals :: locals where
  "initial_locals =
     \<lparr>score = 0, indicators = [], name_recycling_dissolved = [],
      phoenix_directors = [], serial_directors = [], address_matches = []\<rparr>"

definition risk_rules :: "matcher \<Rightarrow> report \<Rightarrow> py_error + locals" where
  "risk_rules ratio_pct rep =
     (let company_name_lc = lower (dict_get (company_name (company rep)) [])
      in case similar_loop ratio_pct company_name_lc (status_rule (company rep) initial_locals)
                (similar_companies rep) of
           Inl e \<Rightarrow> Inl e
         | Inr l \<Rightarrow>
             Inr (insolvency_rule (insolvency rep)
                   (charges_rule (charges rep)
                     (address_rule ratio_pct (company rep) (similar_companies rep)
                       (foldl officer_step (recycling_rule l) (officers rep))))))"

definition no_patterns :: string where
  "no_patterns = ''No clear phoenix patterns detected based on name, director, or address analysis''"

text \<open>
  Source lines 379 to 451: the clamps, the level, the default reason, and the six keys
  stored into the report, which is returned.
\<close>

definition store_assessment :: "report \<Rightarrow> locals \<Rightarrow> verdict \<Rightarrow> report" where
  "store_assessment rep l v =
     (let risk = min (score l) 100;
          conf = min (confidence v) 100
      in rep\<lparr>is_phoenix := Some (if phoenix v then ''YES'' else ''NO''),
              phoenix_confidence := Some conf,
              phoenix_reasons := Some (if reasons v = [] then [no_patterns] else reasons v),
              risk_score := risk,
              risk_level := Some (risk_level_of risk),
              phoenix_indicators := indicators l\<rparr>)"

definition calculate_risk :: "matcher \<Rightarrow> report \<Rightarrow> py_error + report" where
  "calculate_risk ratio_pct rep =
     (case risk_rules ratio_pct rep of
        Inl e \<Rightarrow> Inl e
      | Inr l \<Rightarrow> Inr (store_assessment rep l (phoenix_rules l (officers rep))))"

section \<open>The collector\<close>

text \<open>
  The outside world of one scan. \<open>requests.get\<close> either raises a
  \<open>RequestException\<close> or gives a response with a status code, a text and, read
  with \<open>json()\<close>, the JSON object of its endpoint. Each endpoint of the company is
  requested once; the search is requested several times, and \<open>http_search w k\<close>
  answers the \<open>k\<close>-th search request of the scan. \<open>clock w k\<close> is the
  \<open>k\<close>-th reading of \<open>datetime.now()\<close>, and \<open>strptime w\<close> is
  \<open>datetime.strptime(_, '%Y-%m-%d')\<close>, \<open>None\<close> where it raises
  \<open>ValueError\<close>. A \<open>datetime\<close> is a number of microseconds; the clock
  is taken to read a time from which 730 days can be subtracted. A response with status
  200 is taken to carry the JSON object of its endpoint, which has no key \<open>error\<close>.
\<close>

datatype 'a http_outcome = RequestException string | Response nat string 'a

record 'a listing =
  items :: "'a list option"

type_synonym datetime = int

record world =
  http_company :: "string \<Rightarrow> company_profile http_outcome"
  http_officers :: "string \<Rightarrow> officer_item listing http_outcome"
  http_filing_history :: "string \<Rightarrow> json_object listing http_outcome"
  http_psc :: "string \<Rightarrow> json_object listing http_outcome"
  http_charges :: "string \<Rightarrow> charge listing http_outcome"
  http_insolvency :: "string \<Rightarrow> json_object http_outcome"
  http_search :: "nat \<Rightarrow> string \<Rightarrow> search_hit listing http_outcome"
  clock :: "nat \<Rightarrow> datetime"
  strptime :: "string \<Rightarrow> datetime option"

text \<open>
  What \<open>api_request\<close> returns: the dictionary \<open>{'error': ...}\<close> (with
  \<open>'status_code': 404\<close> for a 404), or the JSON object of the response.
\<close>

datatype 'a api_dict = ErrorDict string "nat option" | Json 'a

definition PHOENIX_BASE_URL :: string where
  "PHOENIX_BASE_URL = ''https://api.company-information.service.gov.uk''"

definition api_request :: "(string \<Rightarrow> 'a http_outcome) \<Rightarrow> string \<Rightarrow> 'a api_dict" where
  "api_request http_get endpoint =
     (case http_get (PHOENIX_BASE_URL @ endpoint) of
        RequestException e \<Rightarrow> ErrorDict e None
      | Response status_code text js \<Rightarrow>
          if status_code = 404 then ErrorDict ''Not found'' (Some 404)
          else if status_code \<noteq> 200
          then ErrorDict (''HTTP '' @ str_nat status_code @ '': '' @ take 500 text) None
          else Json js)"

definition get_company :: "world \<Rightarrow> string \<Rightarrow> company_profile api_dict" where
  "get_company w company_no = api_request (http_company w) (''/company/'' @ company_no)"

definition get_officers :: "world \<Rightarrow> string \<Rightarrow> officer_item listing api_dict" where
  "get_officers w company_no =
     api_request (http_officers w) (''/company/'' @ company_no @ ''/officers'')"

definition get_filing_history :: "world \<Rightarrow> string \<Rightarrow> json_object listing api_dict" where
  "get_filing_history w company_no =
     api_request (http_filing_history w)
       (''/company/'' @ company_no @ ''/filing-history?items_per_page=100'')"

definition get_psc :: "world \<Rightarrow> string \<Rightarrow> json_object listing api_dict" where
  "get_psc w company_no =
     api_request (http_psc w)
       (''/company/'' @ company_no @ ''/persons-with-significant-control'')"

definition get_charges :: "world \<Rightarrow> string \<Rightarrow> charge listing api_dict" where
  "get_charges w company_no =
     api_request (http_charges w) (''/company/'' @ company_no @ ''/charges'')"

definition get_insolvency :: "world \<Rightarrow> string \<Rightarrow> json_object api_dict" where
  "get_insolvency w company_no =
     api_request (http_insolvency w) (''/company/'' @ company_no @ ''/insolvency'')"

definition search_companies :: "world \<Rightarrow> nat \<Rightarrow> string \<Rightarrow> search_hit listing api_dict" where
  "search_companies w k query =
     api_request (http_search w k) (''/search/companies?q='' @ query @ ''&items_per_page=100'')"

text \<open>\<open>d.get('items', [])\<close>, and the list looped over under \<open>if 'items' in d\<close>.\<close>

definition items_of :: "'a listing api_dict \<Rightarrow> 'a list" where
  "items_of d = (case d of ErrorDict e sc \<Rightarrow> [] | Json p \<Rightarrow> dict_get (items p) [])"

text \<open>
  The state of the collection: the report under construction, the number of clock
  readings taken and the number of search requests made.
\<close>

record scan_state =
  rep :: report
  ticks :: nat
  searches :: nat

definition days_730 :: int where
  "days_730 = 730 * 86400 * 1000000"

text \<open>Source lines 507 to 535: the body of the loop over the companies linked to an officer.\<close>

definition link_step :: "world \<Rightarrow> string \<Rightarrow> officer_entry \<times> scan_state \<Rightarrow> search_hit \<Rightarrow> officer_entry \<times> scan_state" where
  "link_step w officer_name es linked_co =
     (let (entry, st) = es;
          co_status = dict_get (company_status linked_co) [];
          co_title = dict_get (title linked_co) [];
          co_num = dict_get (company_number linked_co) [];
          creation = dict_get (date_of_creation linked_co) [];
          e1 = entry\<lparr>linked_companies := linked_companies entry @
                 [\<lparr>lc_company_number = co_num, lc_title = co_title, lc_status = co_status,
                   lc_date_of_creation = creation\<rparr>]\<rparr>;
          (e2, st2) =
            (if co_status \<in> set suspicious_statuses
             then
               (let e' = (if co_status = ''dissolved''
                          then e1\<lparr>dissolved_links := dissolved_links e1 + 1\<rparr> else e1);
                    e'' = (if co_status \<in> set [''liquidation'', ''insolvency-proceedings'']
                           then e'\<lparr>liquidation_links := liquidation_links e' + 1\<rparr> else e')
                in (e'',
                    st\<lparr>rep := (rep st)\<lparr>flags := flags (rep st) @
                      [''Director '' @ officer_name @ '' linked to '' @ co_title @ '' ('' @
                       co_status @ '')'']\<rparr>\<rparr>))
             else (e1, st))
      in if creation \<noteq> []
         then (case strptime w creation of
                 None \<Rightarrow> (e2, st2)
               | Some creation_date \<Rightarrow>
                   (let two_years_ago = clock w (ticks st2) - days_730;
                        st3 = st2\<lparr>ticks := Suc (ticks st2)\<rparr>
                    in if two_years_ago < creation_date
                       then (e2\<lparr>recent_formations := recent_formations e2 + 1\<rparr>, st3)
                       else (e2, st3)))
         else (e2, st2))"

text \<open>
  Source lines 492 to 537: the body of the loop over the officers. The entry starts with
  no linked company and its three counters at 0 (lines 494 to 503).
\<close>

definition new_officer_entry :: "officer_item \<Rightarrow> officer_entry" where
  "new_officer_entry officer =
     \<lparr>name = dict_get (item_name officer) ''(unknown)'',
      role = dict_get (item_officer_role officer) [],
      appointed_on = dict_get (item_appointed_on officer) [],
      resigned_on = dict_get (item_resigned_on officer) [],
      linked_companies = [],
      dissolved_links = 0,
      liquidation_links = 0,
      recent_formations = 0\<rparr>"

definition officer_scan :: "world \<Rightarrow> scan_state \<Rightarrow> officer_item \<Rightarrow> scan_state" where
  "officer_scan w st officer =
     (let officer_name = dict_get (item_name officer) ''(unknown)'';
          search = search_companies w (searches st) officer_name;
          (entry, st') =
            foldl (link_step w officer_name)
              (new_officer_entry officer, st\<lparr>searches := Suc (searches st)\<rparr>) (items_of search)
      in st'\<lparr>rep := (rep st')\<lparr>officers := officers (rep st') @ [entry]\<rparr>\<rparr>)"

text \<open>Source lines 539 to 546: the search by name.\<close>

definition name_search :: "world \<Rightarrow> string \<Rightarrow> company_profile \<Rightarrow> scan_state \<Rightarrow> scan_state" where
  "name_search w company_no c st =
     (let company_name = dict_get (company_name c) []
      in if company_name \<noteq> []
         then
           (let similar = search_companies w (searches st) company_name;
                kept = filter (\<lambda>sim_company. dict_get (company_number sim_company) [] \<noteq> company_no)
                         (items_of similar)
            in st\<lparr>rep := (rep st)\<lparr>similar_companies := similar_companies (rep st) @ kept\<rparr>,
                  searches := Suc (searches st)\<rparr>)
         else st)"

text \<open>Source lines 548 to 558: the search by address.\<close>

definition address_step :: "string \<Rightarrow> search_hit list \<Rightarrow> search_hit \<Rightarrow> search_hit list" where
  "address_step company_no similars addr_company =
     (let addr_num = dict_get (company_number addr_company) []
      in if addr_num \<noteq> company_no
         then
           (let exists = list_ex (\<lambda>sc. company_number sc = Some addr_num) similars
            in if \<not> exists
               then similars @ [addr_company\<lparr>found_by := Some ''address''\<rparr>]
               else similars)
         else similars)"

definition address_search :: "world \<Rightarrow> string \<Rightarrow> company_profile \<Rightarrow> scan_state \<Rightarrow> scan_state" where
  "address_search w company_no c st =
     (let address = build_address_string c
      in if address \<noteq> []
         then
           (let address_search = search_companies w (searches st) address
            in st\<lparr>rep := (rep st)\<lparr>similar_companies :=
                     foldl (address_step company_no) (similar_companies (rep st))
                       (items_of address_search)\<rparr>,
                  searches := Suc (searches st)\<rparr>)
         else st)"

text \<open>
  Source lines 456 to 558: \<open>deep_scan_company\<close> up to the call of the scorer.
  \<open>Inl\<close> is the early \<open>return {'error': ...}\<close>.
\<close>

definition empty_report :: report where
  "empty_report =
     \<lparr>company = \<lparr>company_name = None, profile_status = None, registered_office_address = None\<rparr>,
      officers = [], filing_history = [], psc = [], charges = [], insolvency = [],
      similar_companies = [], flags = [], risk_score = 0, phoenix_indicators = [],
      is_phoenix = None, phoenix_confidence = None, phoenix_reasons = None, risk_level = None\<rparr>"

definition fetch_sections :: "world \<Rightarrow> string \<Rightarrow> company_profile \<Rightarrow> report" where
  "fetch_sections w company_no c =
     (let r1 = empty_report\<lparr>company := c\<rparr>;
          r2 = r1\<lparr>filing_history := items_of (get_filing_history w company_no)\<rparr>;
          r3 = r2\<lparr>psc := items_of (get_psc w company_no)\<rparr>;
          r4 = r3\<lparr>charges := items_of (get_charges w company_no)\<rparr>
      in case get_insolvency w company_no of
           ErrorDict e sc \<Rightarrow> r4
         | Json insolvency_data \<Rightarrow> r4\<lparr>insolvency := insolvency_data\<rparr>)"

definition collect_report :: "world \<Rightarrow> string \<Rightarrow> string + report" where
  "collect_report w company_no =
     (case get_company w company_no of
        ErrorDict e sc \<Rightarrow> Inl e
      | Json c \<Rightarrow>
          (let officer_items = items_of (get_officers w company_no);
               st = foldl (officer_scan w)
                      \<lparr>rep = fetch_sections w company_no c, ticks = 0, searches = 0\<rparr>
                      officer_items
           in Inr (rep (address_search w company_no c (name_search w company_no c st)))))"

text \<open>
  \<open>deep_scan_company\<close>: what it returns is the error dictionary or the scored
  report; \<open>Inl\<close> is an exception that leaves it.
\<close>

datatype scan_result = ScanError string | ScanReport report

definition deep_scan_company :: "world \<Rightarrow> matcher \<Rightarrow> string \<Rightarrow> py_error + scan_result" where
  "deep_scan_company w ratio_pct company_no =
     (case collect_report w company_no of
        Inl e \<Rightarrow> Inr (ScanError e)
      | Inr r \<Rightarrow>
          (case calculate_risk ratio_pct r of
             Inl err \<Rightarrow> Inl err
           | Inr scored \<Rightarrow> Inr (ScanReport scored)))"

section \<open>Reference instances of the library functions\<close>

text \<open>
  The theorems below hold for every matcher and every world. To run the scorer and the
  collector on concrete inputs, the two library functions are given here as the standard
  library computes them, the ratio in exact arithmetic: the float of the library is this
  value rounded, and equals it where the examples use it (100, 85 and 70).

  \<open>difflib.SequenceMatcher(None, a, b)\<close> with its default \<open>autojunk\<close>:
  when \<open>b\<close> has 200 elements or more, an element that occurs more than
  \<open>len(b) // 100 + 1\<close> times is popular and starts no match.
  \<open>find_longest_match\<close> keeps, row by row, the length of the match that ends at
  each position of \<open>b\<close>, and the first longest block in the order of the scan; the
  block is then extended on both sides over equal elements.
\<close>

definition popular :: "string \<Rightarrow> char \<Rightarrow> bool" where
  "popular b c = (200 \<le> length b \<and> length b div 100 + 1 < count_list b c)"

definition new_row :: "(char \<Rightarrow> bool) \<Rightarrow> char \<Rightarrow> string \<Rightarrow> nat list \<Rightarrow> nat list" where
  "new_row pop x b prev =
     map (\<lambda>(y, p). if x = y \<and> \<not> pop y then Suc p else 0) (zip b (0 # prev))"

definition best_in_row :: "nat \<Rightarrow> nat list \<Rightarrow> nat \<times> nat \<times> nat \<Rightarrow> nat \<times> nat \<times> nat" where
  "best_in_row i row best =
     foldl (\<lambda>(besti, bestj, bestsize) (j, k).
              if bestsize < k then (Suc i - k, Suc j - k, k) else (besti, bestj, bestsize))
       best (zip [0..<length row] row)"

fun scan_rows :: "(char \<Rightarrow> bool) \<Rightarrow> string \<Rightarrow> string \<Rightarrow> nat \<Rightarrow> nat list \<Rightarrow> nat \<times> nat \<times> nat \<Rightarrow> nat \<times> nat \<times> nat" where
  "scan_rows pop [] b i prev best = best"
| "scan_rows pop (x # xs) b i prev best =
     (let row = new_row pop x b prev
      in scan_rows pop xs b (Suc i) row (best_in_row i row best))"

fun extend_back :: "string \<Rightarrow> string \<Rightarrow> nat \<Rightarrow> nat \<Rightarrow> nat \<Rightarrow> nat \<times> nat \<times> nat" where
  "extend_back a b (Suc i) (Suc j) k =
     (if a ! i = b ! j then extend_back a b i j (Suc k) else (Suc i, Suc j, k))"
| "extend_back a b i j k = (i, j, k)"

fun common_prefix :: "string \<Rightarrow> string \<Rightarrow> nat" where
  "common_prefix (x # xs) (y # ys) = (if x = y then Suc (common_prefix xs ys) else 0)"
| "common_prefix xs ys = 0"

definition find_longest_match :: "(char \<Rightarrow> bool) \<Rightarrow> string \<Rightarrow> string \<Rightarrow> nat \<times> nat \<times> nat" where
  "find_longest_match pop a b =
     (let (i0, j0, k0) = scan_rows pop a b 0 (replicate (length b) 0) (0, 0, 0);
          (i, j, k) = extend_back a b i0 j0 k0
      in (i, j, k + common_prefix (drop (i + k) a) (drop (j + k) b)))"

text \<open>
  The sum of the sizes of the matching blocks: the longest block, then the blocks to its
  left and to its right. A block lies inside \<open>a\<close>; the test on \<open>i + k\<close>
  makes the recursion visibly terminating.
\<close>

function matching_total :: "(char \<Rightarrow> bool) \<Rightarrow> string \<Rightarrow> string \<Rightarrow> nat" where
  "matching_total pop a b =
     (let (i, j, k) = find_longest_match pop a b
      in if k = 0 \<or> length a < i + k then 0
         else k + matching_total pop (take i a) (take j b)
                + matching_total pop (drop (i + k) a) (drop (j + k) b))"
  by pat_completeness auto
termination
  by (relation "measure (\<lambda>(pop, a, b). length a)") auto

declare matching_total.simps [simp del]

definition difflib_pct :: matcher where
  "difflib_pct a b =
     (if length a + length b = 0 then 100
      else 2 * of_nat (matching_total (popular b) a b) / of_nat (length a + length b) * 100)"

text \<open>
  \<open>datetime.strptime(s, '%Y-%m-%d')\<close>: four digits, a month and a day written with
  or without a leading zero (the day also with a leading space), a year from 1 and a day
  that the month has. The result counts the microseconds from the first day of year 1.
\<close>

definition digit_val :: "char \<Rightarrow> int option" where
  "digit_val c =
     (if 48 \<le> (of_char c :: int) \<and> (of_char c :: int) \<le> 57
      then Some ((of_char c :: int) - 48) else None)"

fun split_dash :: "string \<Rightarrow> string list" where
  "split_dash [] = [[]]"
| "split_dash (c # cs) =
     (if c = CHR ''-'' then [] # split_dash cs
      else (case split_dash cs of [] \<Rightarrow> [[c]] | p # ps \<Rightarrow> (c # p) # ps))"

definition parse_year :: "string \<Rightarrow> int option" where
  "parse_year s =
     (case map digit_val s of
        [Some a, Some b, Some c, Some d] \<Rightarrow> Some (1000 * a + 100 * b + 10 * c + d)
      | _ \<Rightarrow> None)"

definition parse_month :: "string \<Rightarrow> int option" where
  "parse_month s =
     (case map digit_val s of
        [Some a] \<Rightarrow> if 1 \<le> a then Some a else None
      | [Some a, Some b] \<Rightarrow>
          if 1 \<le> 10 * a + b \<and> 10 * a + b \<le> 12 then Some (10 * a + b) else None
      | _ \<Rightarrow> None)"

definition parse_day :: "string \<Rightarrow> int option" where
  "parse_day s =
     (case s of
        [c] \<Rightarrow> (case digit_val c of Some a \<Rightarrow> if 1 \<le> a then Some a else None | None \<Rightarrow> None)
      | [c, d] \<Rightarrow>
          (case (if c = CHR '' '' then Some 0 else digit_val c, digit_val d) of
             (Some a, Some b) \<Rightarrow>
               if 1 \<le> 10 * a + b \<and> 10 * a + b \<le> 31
               then Some (10 * a + b) else None
           | _ \<Rightarrow> None)
      | _ \<Rightarrow> None)"

definition is_leap :: "int \<Rightarrow> bool" where
  "is_leap y = (y mod 4 = 0 \<and> (y mod 100 \<noteq> 0 \<or> y mod 400 = 0))"

definition days_in_month :: "int \<Rightarrow> int \<Rightarrow> int" where
  "days_in_month y m =
     (if m = 2 then (if is_leap y then 29 else 28)
      else if m \<in> set [4, 6, 9, 11] then 30 else 31)"

definition ordinal :: "int \<Rightarrow> int \<Rightarrow> int \<Rightarrow> int" where
  "ordinal y m d =
     365 * (y - 1) + (y - 1) div 4 - (y - 1) div 100 + (y - 1) div 400
     + sum_list (map (days_in_month y) [1..m - 1]) + d"

definition strptime_ymd :: "string \<Rightarrow> datetime option" where
  "strptime_ymd s =
     (case split_dash s of
        [ys, ms, ds] \<Rightarrow>
          (case (parse_year ys, parse_month ms, parse_day ds) of
             (Some y, Some m, Some d) \<Rightarrow>
               if 1 \<le> y \<and> d \<le> days_in_month y m
               then Some ((ordinal y m d - 1) * 86400 * 1000000) else None
           | _ \<Rightarrow> None)
      | _ \<Rightarrow> None)"

section \<open>Notions used to state the properties\<close>

text \<open>
  The risk assessment of a report: the six values that \<open>calculate_risk\<close> stores.
\<close>

definition assessment_of :: "report \<Rightarrow> int \<times> string option \<times> string option \<times> int option \<times> string list option \<times> indicator list" where
  "assessment_of r =
     (risk_score r, risk_level r, is_phoenix r, phoenix_confidence r, phoenix_reasons r,
      phoenix_indicators r)"

text \<open>The type and the severity of each indicator of a list, in order.\<close>

definition kinds :: "indicator list \<Rightarrow> (string \<times> string) list" where
  "kinds inds = map (\<lambda>ind. (ind_type ind, severity ind)) inds"

text \<open>
  The similar companies that count as address matches: none when the company has no
  address string, else those whose address snippet is more than 85% similar to it.
\<close>

definition address_hits :: "matcher \<Rightarrow> company_profile \<Rightarrow> search_hit list \<Rightarrow> search_hit list" where
  "address_hits ratio_pct c similars =
     (if build_address_string c = [] then []
      else filter (\<lambda>similar. case address_snippet similar of
                                None \<Rightarrow> False
                              | Some snippet \<Rightarrow>
                                  85 < ratio_pct (lower (build_address_string c)) (lower snippet))
             similars)"

section \<open>Example inputs\<close>

definition director :: "string \<Rightarrow> int \<Rightarrow> int \<Rightarrow> int \<Rightarrow> officer_entry" where
  "director nm d l f =
     \<lparr>name = nm, role = ''director'', appointed_on = [], resigned_on = [], linked_companies = [],
      dissolved_links = d, liquidation_links = l, recent_formations = f\<rparr>"

definition dissolved_hit :: "string \<Rightarrow> string \<Rightarrow> search_hit" where
  "dissolved_hit t n =
     \<lparr>title = Some t, company_number = Some n, company_status = Some ''dissolved'',
      date_of_creation = None, address_snippet = None, found_by = None\<rparr>"

definition active_profile :: "string \<Rightarrow> company_profile" where
  "active_profile nm =
     \<lparr>company_name = Some nm, profile_status = Some ''active'', registered_office_address = None\<rparr>"

text \<open>
  Two directors with one dissolved company and one recent formation each, and two
  dissolved companies that bear the name of the target.
\<close>

definition bundle_60 :: report where
  "bundle_60 =
     empty_report\<lparr>company := active_profile ''Abc Ltd'',
       officers := [director ''A'' 1 0 1, director ''B'' 1 0 1],
       similar_companies := [dissolved_hit ''ABC LTD'' ''01'', dissolved_hit ''ABC LTD'' ''02'']\<rparr>"

text \<open>A bundle in which most rules fire.\<close>

definition sample_bundle :: report where
  "sample_bundle =
     empty_report\<lparr>company :=
         \<lparr>company_name = Some ''Abc Ltd'', profile_status = Some ''dissolved'',
          registered_office_address =
            Some \<lparr>address_line_1 = Some ''1 High St'', address_line_2 = None,
                  locality = Some ''Leeds'', postal_code = Some ''LS1''\<rparr>\<rparr>,
       officers := [director ''A'' 3 2 1, director ''B'' 0 0 4],
       charges := [\<lparr>charge_status = Some ''outstanding''\<rparr>, \<lparr>charge_status = None\<rparr>],
       insolvency := [(''status'', ''live'')],
       similar_companies :=
         [dissolved_hit ''ABC LTD'' ''01'',
          (dissolved_hit ''Abd Ltx'' ''02'')\<lparr>address_snippet := Some ''1 high st leeds ls1''\<rparr>,
          (dissolved_hit ''Zzz'' ''03'')\<lparr>company_status := Some ''active''\<rparr>],
       flags := [''Director A linked to Old Co (dissolved)'']\<rparr>"

text \<open>A bundle with no signal at all, and one with three dissolved lookalikes only.\<close>

definition quiet_bundle :: report where
  "quiet_bundle = empty_report\<lparr>company := active_profile ''Abc Ltd''\<rparr>"

definition three_lookalikes :: report where
  "three_lookalikes =
     empty_report\<lparr>company := active_profile ''Abc Ltd'',
       officers := [director ''B'' 0 0 4],
       charges := [\<lparr>charge_status = Some ''satisfied''\<rparr>],
       similar_companies :=
         [dissolved_hit ''ABC LTD'' ''01'', dissolved_hit ''Abc Ltd'' ''02'',
          dissolved_hit ''abc ltd.'' ''03'']\<rparr>"

text \<open>
  Three dissolved companies whose titles are 85%, 70% and less than 70% similar to the
  names they are compared with below.
\<close>

definition hit_85 :: search_hit where
  "hit_85 = dissolved_hit ''ABCDEFGHIJKLMNOPQXYZ'' ''01''"

definition hit_70 :: search_hit where
  "hit_70 = dissolved_hit ''ABCDEFGXYZ'' ''02''"

definition hit_63 :: search_hit where
  "hit_63 = dissolved_hit ''ABCDEFXYZ'' ''03''"

section \<open>Notions used to state the properties of the collector\<close>

text \<open>\<open>'error' in d\<close>: the call gave an error outcome.\<close>

definition is_error :: "'a api_dict \<Rightarrow> bool" where
  "is_error d = (case d of ErrorDict e sc \<Rightarrow> True | Json p \<Rightarrow> False)"



text \<open>
  The hits of the search by name that are kept: all but those with the number of the
  target, as the registry returned them. \<open>k\<close> is the number of the search request.
\<close>

definition kept_name_hits :: "world \<Rightarrow> string \<Rightarrow> company_profile \<Rightarrow> nat \<Rightarrow> search_hit list" where
  "kept_name_hits w company_no c k =
     (if dict_get (company_name c) [] = [] then []
      else filter (\<lambda>h. dict_get (company_number h) [] \<noteq> company_no)
             (items_of (search_companies w k (dict_get (company_name c) []))))"

text \<open>
  A report without its flags, and without its flags and officers: what the loops over the
  linked companies and over the officers leave alone.
\<close>

definition without_flags :: "report \<Rightarrow> report" where
  "without_flags r = r\<lparr>flags := []\<rparr>"

definition core :: "report \<Rightarrow> report" where
  "core r = r\<lparr>flags := [], officers := []\<rparr>"


section \<open>An example of the outside world\<close>

text \<open>
  The registry knows the company \<open>00000001\<close>, answers the requests for its officers
  and charges, and fails on its filing history (no answer), its PSC list (status 500) and
  its insolvency record (status 404). The first search is the one for the officer, the
  second the one by name, the third the one by address. The clock starts on 2025-01-01 at
  midnight and advances by a microsecond at each reading, so that the first cutoff is
  2023-01-02 at midnight.
\<close>

definition linked_hit :: "string \<Rightarrow> string \<Rightarrow> string option \<Rightarrow> search_hit" where
  "linked_hit n st d =
     \<lparr>title = Some ''Old Co'', company_number = Some n, company_status = Some st,
      date_of_creation = d, address_snippet = None, found_by = None\<rparr>"

definition officer_hits :: "search_hit list" where
  "officer_hits =
     [linked_hit ''10'' ''dissolved'' (Some ''2024-06-01''),
      linked_hit ''11'' ''active'' (Some ''2023-01-02''),
      linked_hit ''12'' ''liquidation'' (Some ''last year''),
      linked_hit ''13'' ''active'' None,
      linked_hit ''14'' ''active'' (Some ''2023-01-03'')]"

definition demo_profile :: company_profile where
  "demo_profile =
     \<lparr>company_name = Some ''Abc Ltd'', profile_status = Some ''active'',
      registered_office_address =
        Some \<lparr>address_line_1 = None, address_line_2 = None, locality = Some ''Leeds'',
              postal_code = None\<rparr>\<rparr>"

definition demo_officer :: officer_item where
  "demo_officer =
     \<lparr>item_name = Some ''SMITH, John'', item_officer_role = Some ''director'',
      item_appointed_on = Some ''2020-01-01'', item_resigned_on = None\<rparr>"

definition demo_world :: world where
  "demo_world =
     \<lparr>http_company =
        (\<lambda>url. if url = ''https://api.company-information.service.gov.uk/company/00000001''
               then Response 200 [] demo_profile
               else Response 404 [] \<lparr>company_name = None, profile_status = None,
                                      registered_office_address = None\<rparr>),
      http_officers = (\<lambda>url. Response 200 [] \<lparr>items = Some [demo_officer]\<rparr>),
      http_filing_history = (\<lambda>url. RequestException ''Read timed out''),
      http_psc = (\<lambda>url. Response 500 ''Internal Server Error'' \<lparr>items = None\<rparr>),
      http_charges = (\<lambda>url. Response 200 [] \<lparr>items = Some [\<lparr>charge_status = Some ''outstanding''\<rparr>]\<rparr>),
      http_insolvency = (\<lambda>url. Response 404 [] []),
      http_search =
        (\<lambda>k url.
           if k = 0 then Response 200 [] \<lparr>items = Some officer_hits\<rparr>
           else if k = 1
           then Response 200 []
                  \<lparr>items = Some [(dissolved_hit ''ABC LTD'' ''00000001'')\<lparr>company_status := Some ''active''\<rparr>,
                                 dissolved_hit ''ABC LTD'' ''00000002'']\<rparr>
           else Response 200 []
                  \<lparr>items = Some [dissolved_hit ''ABC LTD'' ''00000002'',
                                 (dissolved_hit ''Leeds Co'' ''00000003'')\<lparr>address_snippet := Some ''Leeds''\<rparr>]\<rparr>),
      clock = (\<lambda>k. 63871286400000000 + int k),
      strptime = strptime_ymd\<rparr>"

text \<open>The same world with the registry out of reach for the profile.\<close>

definition down_world :: world where
  "down_world = demo_world\<lparr>http_company := (\<lambda>url. RequestException ''Connection refused'')\<rparr>"


section \<open>Inputs without a title or a name\<close>

text \<open>
  A dissolved search hit with no key \<open>title\<close>, a profile with no key
  \<open>company_name\<close>, and a bundle made of that profile and three such hits. The name
  read for the hit and the name read for the target are both the empty string, and two
  empty strings are 100% similar.
\<close>

definition untitled_hit :: "string \<Rightarrow> search_hit" where
  "untitled_hit n =
     \<lparr>title = None, company_number = Some n, company_status = Some ''dissolved'',
      date_of_creation = None, address_snippet = None, found_by = None\<rparr>"

definition nameless_profile :: company_profile where
  "nameless_profile =
     \<lparr>company_name = None, profile_status = Some ''active'',
      registered_office_address =
        Some \<lparr>address_line_1 = None, address_line_2 = None, locality = Some ''Leeds'',
              postal_code = None\<rparr>\<rparr>"

definition three_untitled :: report where
  "three_untitled =
     empty_report\<lparr>company :=
         \<lparr>company_name = None, profile_status = Some ''active'',
          registered_office_address = None\<rparr>,
       similar_companies :=
         [untitled_hit ''00000002'', untitled_hit ''00000003'', untitled_hit ''00000004'']\<rparr>"

text \<open>
  A world in which the profile of \<open>00000001\<close> has an address and no name, the
  request for the officers fails, and the search by address returns one untitled
  dissolved hit.
\<close>

definition untitled_world :: world where
  "untitled_world =
     demo_world\<lparr>http_company := (\<lambda>url. Response 200 [] nameless_profile),
       http_officers := (\<lambda>url. RequestException ''Read timed out''),
       http_search := (\<lambda>k url. Response 200 [] \<lparr>items = Some [untitled_hit ''00000002'']\<rparr>)\<rparr>"

section \<open>Properties of the scorer\<close>

subsection \<open>What the scorer reads and what it writes\<close>

lemma risk_rules_cong:
  assumes "company r1 = company r2" "officers r1 = officers r2" "charges r1 = charges r2"
    "insolvency r1 = insolvency r2" "similar_companies r1 = similar_companies r2"
  shows "risk_rules m r1 = risk_rules m r2"
  unfolding risk_rules_def assms by (rule refl)

lemma store_assessment_frame:
  "company (store_assessment r l v) = company r"
  "officers (store_assessment r l v) = officers r"
  "filing_history (store_assessment r l v) = filing_history r"
  "psc (store_assessment r l v) = psc r"
  "charges (store_assessment r l v) = charges r"
  "insolvency (store_assessment r l v) = insolvency r"
  "similar_companies (store_assessment r l v) = similar_companies r"
  "flags (store_assessment r l v) = flags r"
  by (simp_all add: store_assessment_def Let_def)

lemma store_assessment_twice:
  "store_assessment (store_assessment r l v) l v = store_assessment r l v"
  by (simp add: store_assessment_def Let_def)

lemma assessment_of_store:
  "assessment_of (store_assessment r1 l v) = assessment_of (store_assessment r2 l v)"
  by (simp add: store_assessment_def assessment_of_def Let_def)

lemma calculate_risk_Inr:
  "calculate_risk m r = Inr s \<longleftrightarrow>
     (\<exists>l. risk_rules m r = Inr l \<and> s = store_assessment r l (phoenix_rules l (officers r)))"
  by (auto simp: calculate_risk_def split: sum.splits)

subsection \<open>The score and the confidence never decrease\<close>

lemma score_add_indicator [simp]: "score (add_indicator d ty sev descr l) = score l + d"
  by (simp add: add_indicator_def)

lemma score_append_indicator [simp]: "score (append_indicator ty sev descr l) = score l"
  by (simp add: append_indicator_def)

lemma status_rule_mono: "score l \<le> score (status_rule c l)"
  by (simp add: status_rule_def Let_def)

lemma similar_step_mono:
  "similar_step m n l s = Inr l' \<Longrightarrow> score l \<le> score l'"
  by (auto simp: similar_step_def Let_def split: if_splits option.splits)

lemma similar_step_Inl:
  "similar_step m n l s = Inl e \<Longrightarrow> e = KeyError ''title'' \<and> title s = None"
  by (auto simp: similar_step_def Let_def split: if_splits option.splits)

lemma similar_loop_mono:
  "similar_loop m n l sims = Inr l' \<Longrightarrow> score l \<le> score l'"
proof (induction sims arbitrary: l)
  case Nil
  then show ?case by simp
next
  case (Cons s sims)
  then obtain l1 where s1: "similar_step m n l s = Inr l1"
    and rest: "similar_loop m n l1 sims = Inr l'"
    by (auto split: sum.splits)
  from similar_step_mono [OF s1] Cons.IH [OF rest] show ?case by simp
qed

lemma similar_loop_Inl:
  "similar_loop m n l sims = Inl e \<Longrightarrow>
     e = KeyError ''title'' \<and> (\<exists>s \<in> set sims. title s = None)"
proof (induction sims arbitrary: l)
  case Nil
  then show ?case by simp
next
  case (Cons s sims)
  show ?case
  proof (cases "similar_step m n l s")
    case (Inl e')
    with Cons.prems have "e' = e" by simp
    with similar_step_Inl [OF Inl] show ?thesis by simp
  next
    case (Inr l1)
    with Cons.prems have "similar_loop m n l1 sims = Inl e" by simp
    from Cons.IH [OF this] show ?thesis by simp
  qed
qed

lemma recycling_rule_mono: "score l \<le> score (recycling_rule l)"
  by (simp add: recycling_rule_def Let_def)

lemma officer_step_mono: "score l \<le> score (officer_step l officer)"
  by (simp add: officer_step_def Let_def split: prod.splits)

lemma officer_loop_mono: "score l \<le> score (foldl officer_step l offs)"
proof (induction offs arbitrary: l)
  case Nil
  then show ?case by simp
next
  case (Cons officer offs)
  have "score l \<le> score (officer_step l officer)" by (rule officer_step_mono)
  also have "\<dots> \<le> score (foldl officer_step (officer_step l officer) offs)" by (rule Cons.IH)
  finally show ?case by simp
qed

lemma address_rule_mono: "score l \<le> score (address_rule m c sims l)"
  by (simp add: address_rule_def Let_def)

lemma charges_rule_mono: "score l \<le> score (charges_rule cs l)"
  by (simp add: charges_rule_def Let_def)

lemma insolvency_rule_mono: "score l \<le> score (insolvency_rule ins l)"
  by (simp add: insolvency_rule_def)

lemma risk_rules_nonneg:
  assumes "risk_rules m r = Inr l"
  shows "0 \<le> score l"
proof -
  from assms obtain l1 where
    loop: "similar_loop m (lower (dict_get (company_name (company r)) []))
             (status_rule (company r) initial_locals) (similar_companies r) = Inr l1"
    and l: "l = insolvency_rule (insolvency r) (charges_rule (charges r)
                 (address_rule m (company r) (similar_companies r)
                   (foldl officer_step (recycling_rule l1) (officers r))))"
    by (auto simp: risk_rules_def Let_def split: sum.splits)
  have "0 \<le> score (status_rule (company r) initial_locals)"
    using status_rule_mono [of initial_locals "company r"] by (simp add: initial_locals_def)
  also have "\<dots> \<le> score l1" by (rule similar_loop_mono [OF loop])
  also have "\<dots> \<le> score (recycling_rule l1)" by (rule recycling_rule_mono)
  also have "\<dots> \<le> score (foldl officer_step (recycling_rule l1) (officers r))"
    by (rule officer_loop_mono)
  also have "\<dots> \<le> score (address_rule m (company r) (similar_companies r)
                   (foldl officer_step (recycling_rule l1) (officers r)))"
    by (rule address_rule_mono)
  also have "\<dots> \<le> score (charges_rule (charges r) (address_rule m (company r)
                   (similar_companies r) (foldl officer_step (recycling_rule l1) (officers r))))"
    by (rule charges_rule_mono)
  also have "\<dots> \<le> score l" unfolding l by (rule insolvency_rule_mono)
  finally show ?thesis .
qed

lemma risk_rules_Inl:
  "risk_rules m r = Inl e \<Longrightarrow>
     e = KeyError ''title'' \<and> (\<exists>s \<in> set (similar_companies r). title s = None)"
  by (auto simp: risk_rules_def Let_def split: sum.splits dest: similar_loop_Inl)

lemma confidence_add_confidence [simp]:
  "confidence (add_confidence d reason checked v) = confidence v + d"
  by (simp add: add_confidence_def Let_def)

lemma directors_rule_mono: "confidence v \<le> confidence (directors_rule l v)"
  by (simp add: directors_rule_def Let_def)

lemma liquidation_rule_mono: "confidence v \<le> confidence (liquidation_rule offs v)"
  by (simp add: liquidation_rule_def Let_def)

lemma name_rule_mono: "confidence v \<le> confidence (name_rule l v)"
  by (simp add: name_rule_def Let_def)

lemma insolvency_directors_rule_mono:
  "confidence v \<le> confidence (insolvency_directors_rule l v)"
  by (simp add: insolvency_directors_rule_def Let_def)

lemma address_name_rule_mono: "confidence v \<le> confidence (address_name_rule l v)"
  by (simp add: address_name_rule_def)

lemma serial_name_rule_mono: "confidence v \<le> confidence (serial_name_rule l v)"
  by (simp add: serial_name_rule_def)

lemma phoenix_rules_nonneg: "0 \<le> confidence (phoenix_rules l offs)"
proof -
  let ?v0 = "\<lparr>phoenix = False, confidence = 0, reasons = []\<rparr>"
  let ?v1 = "directors_rule l ?v0"
  let ?v2 = "liquidation_rule offs ?v1"
  let ?v3 = "name_rule l ?v2"
  let ?v4 = "insolvency_directors_rule l ?v3"
  let ?v5 = "address_name_rule l ?v4"
  have "0 \<le> confidence ?v1"
    using directors_rule_mono [of ?v0 l] by simp
  also have "\<dots> \<le> confidence ?v2" by (rule liquidation_rule_mono)
  also have "\<dots> \<le> confidence ?v3" by (rule name_rule_mono)
  also have "\<dots> \<le> confidence ?v4" by (rule insolvency_directors_rule_mono)
  also have "\<dots> \<le> confidence ?v5" by (rule address_name_rule_mono)
  also have "\<dots> \<le> confidence (phoenix_rules l offs)"
    unfolding phoenix_rules_def by (rule serial_name_rule_mono)
  finally show ?thesis .
qed

lemma sample_bundle_scored: "\<not> isl (calculate_risk difflib_pct sample_bundle)"
  by code_simp

text \<open>
  Claim C2. For every bundle, the risk score and the phoenix confidence that the scorer
  returns lie between 0 and 100. The scorer returns for every bundle but one in which a
  similar company has no title, where reading the title raises \<open>KeyError\<close>.
\<close>

theorem risk_and_confidence_bounded:
  "case calculate_risk ratio_pct r of
     Inl e \<Rightarrow> e = KeyError ''title'' \<and> (\<exists>s \<in> set (similar_companies r). title s = None)
   | Inr scored \<Rightarrow>
       0 \<le> risk_score scored \<and> risk_score scored \<le> 100 \<and>
       (\<exists>c. phoenix_confidence scored = Some c \<and> 0 \<le> c \<and> c \<le> 100)"
proof (cases "risk_rules ratio_pct r")
  case (Inl e)
  with risk_rules_Inl [OF Inl] show ?thesis by (simp add: calculate_risk_def)
next
  case (Inr l)
  with risk_rules_nonneg [OF Inr] phoenix_rules_nonneg [of l "officers r"] show ?thesis
    by (simp add: calculate_risk_def store_assessment_def Let_def)
qed

theorem risk_and_confidence_bounded_witness:
  "\<exists>scored c. calculate_risk difflib_pct sample_bundle = Inr scored \<and>
     0 \<le> risk_score scored \<and> risk_score scored \<le> 100 \<and>
     phoenix_confidence scored = Some c \<and> 0 \<le> c \<and> c \<le> 100"
  using risk_and_confidence_bounded [where ratio_pct = difflib_pct and r = sample_bundle]
    sample_bundle_scored
  by (cases "calculate_risk difflib_pct sample_bundle") auto

text \<open>
  Claim C3. The assessment is a function of the company profile, the officers, the
  charges, the insolvency record and the similar companies alone: two reports that agree
  on these get the same assessment (or the same exception), whatever their other keys
  hold. Scoring a scored report again returns it unchanged.
\<close>

theorem scoring_idempotent:
  assumes "company r1 = company r2" "officers r1 = officers r2" "charges r1 = charges r2"
    "insolvency r1 = insolvency r2" "similar_companies r1 = similar_companies r2"
  shows "map_sum id assessment_of (calculate_risk ratio_pct r1) =
           map_sum id assessment_of (calculate_risk ratio_pct r2)
       \<and> (\<forall>scored. calculate_risk ratio_pct r1 = Inr scored \<longrightarrow>
              calculate_risk ratio_pct scored = Inr scored)"
proof
  have eq: "risk_rules ratio_pct r1 = risk_rules ratio_pct r2"
    using assms by (rule risk_rules_cong)
  show "map_sum id assessment_of (calculate_risk ratio_pct r1) =
          map_sum id assessment_of (calculate_risk ratio_pct r2)"
    using assms(2) by (simp add: calculate_risk_def eq assessment_of_store split: sum.splits)
  show "\<forall>scored. calculate_risk ratio_pct r1 = Inr scored \<longrightarrow>
          calculate_risk ratio_pct scored = Inr scored"
  proof (intro allI impI)
    fix s assume "calculate_risk ratio_pct r1 = Inr s"
    then obtain l where l: "risk_rules ratio_pct r1 = Inr l"
      and s: "s = store_assessment r1 l (phoenix_rules l (officers r1))"
      by (auto simp: calculate_risk_Inr)
    have "risk_rules ratio_pct s = risk_rules ratio_pct r1"
      unfolding s by (rule risk_rules_cong) (simp_all add: store_assessment_frame)
    then show "calculate_risk ratio_pct s = Inr s"
      by (simp add: calculate_risk_def l s store_assessment_frame store_assessment_twice)
  qed
qed

theorem scoring_idempotent_witness:
  "\<exists>scored. calculate_risk difflib_pct sample_bundle = Inr scored \<and>
     calculate_risk difflib_pct scored = Inr scored \<and>
     map_sum id assessment_of (calculate_risk difflib_pct sample_bundle) =
       map_sum id assessment_of
         (calculate_risk difflib_pct (sample_bundle\<lparr>flags := [], risk_score := 7\<rparr>))"
  using scoring_idempotent [where ?r1.0 = sample_bundle
      and ?r2.0 = "sample_bundle\<lparr>flags := [], risk_score := 7\<rparr>" and ratio_pct = difflib_pct]
    sample_bundle_scored
  by (cases "calculate_risk difflib_pct sample_bundle") auto

text \<open>
  Claim C9. Scoring leaves every collected field of the bundle as it was: the company
  profile, the officers (with their linked companies and counters), the filing history,
  the PSC list, the charges, the insolvency record, the similar companies and the flags.
\<close>

theorem scoring_frame:
  assumes "calculate_risk ratio_pct r = Inr scored"
  shows "company scored = company r \<and> officers scored = officers r \<and>
    filing_history scored = filing_history r \<and> psc scored = psc r \<and>
    charges scored = charges r \<and> insolvency scored = insolvency r \<and>
    similar_companies scored = similar_companies r \<and> flags scored = flags r"
  using assms by (auto simp: calculate_risk_Inr store_assessment_frame)

theorem scoring_frame_witness:
  "\<exists>scored. calculate_risk difflib_pct sample_bundle = Inr scored \<and>
     company scored = company sample_bundle \<and> officers scored = officers sample_bundle \<and>
     filing_history scored = filing_history sample_bundle \<and> psc scored = psc sample_bundle \<and>
     charges scored = charges sample_bundle \<and> insolvency scored = insolvency sample_bundle \<and>
     similar_companies scored = similar_companies sample_bundle \<and>
     flags scored = flags sample_bundle"
proof -
  obtain scored where s: "calculate_risk difflib_pct sample_bundle = Inr scored"
    using sample_bundle_scored by (cases "calculate_risk difflib_pct sample_bundle") auto
  from scoring_frame [OF s] s show ?thesis by blast
qed

subsection \<open>The rules on concrete signals\<close>

lemma kinds_append [simp]: "kinds (xs @ ys) = kinds xs @ kinds ys"
  by (simp add: kinds_def)

lemma kinds_Nil [simp]: "kinds [] = []"
  by (simp add: kinds_def)

lemma kinds_add_indicator [simp]:
  "kinds (indicators (add_indicator d ty sev descr l)) = kinds (indicators l) @ [(ty, sev)]"
  by (simp add: add_indicator_def kinds_def)

lemma add_indicator_fields [simp]:
  "name_recycling_dissolved (add_indicator d ty sev descr l) = name_recycling_dissolved l"
  "phoenix_directors (add_indicator d ty sev descr l) = phoenix_directors l"
  "serial_directors (add_indicator d ty sev descr l) = serial_directors l"
  "address_matches (add_indicator d ty sev descr l) = address_matches l"
  by (simp_all add: add_indicator_def)

text \<open>
  Claim C1, which the code does not meet. The branch for two name-recycling matches adds 20
  to the confidence and does not test the threshold: with two phoenix directors (40) and
  two matches (20) the confidence ends at 60 and the verdict stays \<open>NO\<close>.
\<close>

theorem verdict_missed_at_60:
  "map_sum id (\<lambda>r. (phoenix_confidence r, is_phoenix r)) (calculate_risk difflib_pct bundle_60) =
     Inr (Some 60, Some ''NO'')"
  by code_simp

text \<open>
  Claim C5. A bundle with no officer, no similar company, no charge, no insolvency record
  and a status outside the suspicious ones is scored 0 and \<open>LOW\<close>, with the verdict
  \<open>NO\<close>, the confidence 0, no indicator and the default reason alone.
\<close>

theorem quiet_bundle_scores_zero:
  assumes "officers r = []" "similar_companies r = []" "charges r = []" "insolvency r = []"
    and "dict_get (profile_status (company r)) [] \<notin> set suspicious_statuses"
  shows "calculate_risk ratio_pct r =
           Inr (r\<lparr>is_phoenix := Some ''NO'', phoenix_confidence := Some 0,
                  phoenix_reasons := Some [no_patterns], risk_score := 0,
                  risk_level := Some ''LOW'', phoenix_indicators := []\<rparr>)"
proof -
  have rules: "risk_rules ratio_pct r = Inr initial_locals"
    using assms
    by (simp add: risk_rules_def status_rule_def address_rule_def charges_rule_def
        insolvency_rule_def recycling_rule_def initial_locals_def Let_def)
  have verdict: "phoenix_rules initial_locals [] = \<lparr>phoenix = False, confidence = 0, reasons = []\<rparr>"
    by (simp add: phoenix_rules_def directors_rule_def liquidation_rule_def name_rule_def
        insolvency_directors_rule_def address_name_rule_def serial_name_rule_def
        initial_locals_def Let_def)
  have fields: "score initial_locals = 0" "indicators initial_locals = []"
    by (simp_all add: initial_locals_def)
  show ?thesis
    by (simp add: calculate_risk_def rules verdict assms(1) store_assessment_def
        fields risk_level_of_def Let_def)
qed

theorem quiet_bundle_scores_zero_witness:
  "officers quiet_bundle = [] \<and> similar_companies quiet_bundle = [] \<and>
   charges quiet_bundle = [] \<and> insolvency quiet_bundle = [] \<and>
   dict_get (profile_status (company quiet_bundle)) [] \<notin> set suspicious_statuses \<and>
   calculate_risk difflib_pct quiet_bundle =
     Inr (quiet_bundle\<lparr>is_phoenix := Some ''NO'', phoenix_confidence := Some 0,
            phoenix_reasons := Some [no_patterns], risk_score := 0,
            risk_level := Some ''LOW'', phoenix_indicators := []\<rparr>)"
proof -
  have h: "officers quiet_bundle = []" "similar_companies quiet_bundle = []"
    "charges quiet_bundle = []" "insolvency quiet_bundle = []"
    "dict_get (profile_status (company quiet_bundle)) [] \<notin> set suspicious_statuses"
    by (simp_all add: quiet_bundle_def empty_report_def active_profile_def dict_get_def
        suspicious_statuses_def)
  from quiet_bundle_scores_zero [OF h, of difflib_pct] h show ?thesis by simp
qed

lemma similar_step_high:
  assumes "dict_get (company_status s) [] \<in> set [''dissolved'', ''liquidation'', ''insolvency-proceedings'']"
    and "title s = Some t" and "85 \<le> m n (lower t)"
  shows "similar_step m n l s =
           Inr (add_indicator 25 ''high_name_similarity'' ''high''
                 (''Very similar name to dissolved company: '' @ t @ '' ('' @
                    dict_get (company_number s) [] @ '') - '' @ format_0f (m n (lower t)) @
                    ''% match'')
                 (l\<lparr>name_recycling_dissolved := name_recycling_dissolved l @ [s]\<rparr>))"
proof -
  have "70 \<le> m n (lower t)" using assms(3) by simp
  with assms show ?thesis
    by (simp add: similar_step_def Let_def dict_get_def)
qed

lemma similar_step_medium:
  assumes "dict_get (company_status s) [] \<in> set [''dissolved'', ''liquidation'', ''insolvency-proceedings'']"
    and "title s = Some t" and "70 \<le> m n (lower t)" and "m n (lower t) < 85"
  shows "similar_step m n l s =
           Inr (add_indicator 15 ''name_similarity'' ''medium''
                 (''Similar name to dissolved company: '' @ t @ '' ('' @
                    dict_get (company_number s) [] @ '') - '' @ format_0f (m n (lower t)) @
                    ''% match'')
                 (l\<lparr>name_recycling_dissolved := name_recycling_dissolved l @ [s]\<rparr>))"
  using assms by (simp add: similar_step_def Let_def dict_get_def)

lemma similar_step_low:
  assumes "m n (lower (dict_get (title s) [])) < 70"
  shows "similar_step m n l s = Inr l"
  using assms by (simp add: similar_step_def Let_def)

lemma officer_step_quiet:
  assumes "dissolved_links officer < 2" "liquidation_links officer < 1"
    "dissolved_links officer < 1 \<or> recent_formations officer < 1"
  shows "officer_step l officer = l"
  using assms by (auto simp: officer_step_def Let_def)

lemma officer_loop_quiet:
  assumes "\<forall>officer \<in> set offs. dissolved_links officer < 2 \<and> liquidation_links officer < 1 \<and>
             (dissolved_links officer < 1 \<or> recent_formations officer < 1)"
  shows "foldl officer_step l offs = l"
  using assms by (induction offs arbitrary: l) (simp_all add: officer_step_quiet)

lemma address_rule_quiet:
  assumes "length (address_hits m c sims) < 3" "address_matches l = []"
  shows "address_rule m c sims l = l\<lparr>address_matches := address_hits m c sims\<rparr>"
  using assms by (auto simp: address_rule_def address_hits_def Let_def)

lemma charges_rule_quiet:
  assumes "\<forall>ch \<in> set cs. charge_status ch \<noteq> Some ''outstanding''"
  shows "charges_rule cs l = l"
proof -
  have "filter (\<lambda>ch. charge_status ch = Some ''outstanding'') cs = []"
    using assms by (simp add: filter_empty_conv)
  then show ?thesis by (simp add: charges_rule_def Let_def)
qed

text \<open>
  Three lookalikes that carry a title. The only signals of the bundle are three similar
  companies, each dissolved and with a title at least 85% similar to the name of the
  target: the status of the target is not suspicious, no officer triggers a rule, fewer
  than three similar companies match the address, no charge is outstanding and there is
  no insolvency record. Then each of the three adds 25 with a high
  \<open>high_name_similarity\<close> indicator, name recycling adds 30 with a critical
  indicator, the sum is 105, and the score returned is 100 with the level
  \<open>CRITICAL\<close>.
\<close>

lemma three_dissolved_lookalikes_clamped:
  assumes quiet_status: "dict_get (profile_status (company r)) [] \<notin> set suspicious_statuses"
    and candidates: "similar_companies r = [s1, s2, s3]"
    and dissolved: "company_status s1 = Some ''dissolved''" "company_status s2 = Some ''dissolved''"
      "company_status s3 = Some ''dissolved''"
    and titles: "title s1 = Some t1" "title s2 = Some t2" "title s3 = Some t3"
    and similar: "85 \<le> ratio_pct (lower (dict_get (company_name (company r)) [])) (lower t1)"
      "85 \<le> ratio_pct (lower (dict_get (company_name (company r)) [])) (lower t2)"
      "85 \<le> ratio_pct (lower (dict_get (company_name (company r)) [])) (lower t3)"
    and quiet_officers: "\<forall>officer \<in> set (officers r).
        dissolved_links officer < 2 \<and> liquidation_links officer < 1 \<and>
        (dissolved_links officer < 1 \<or> recent_formations officer < 1)"
    and quiet_address: "length (address_hits ratio_pct (company r) (similar_companies r)) < 3"
    and quiet_charges: "\<forall>ch \<in> set (charges r). charge_status ch \<noteq> Some ''outstanding''"
    and quiet_insolvency: "insolvency r = []"
  shows "\<exists>l scored. risk_rules ratio_pct r = Inr l \<and> score l = 105 \<and>
           kinds (indicators l) =
             [(''high_name_similarity'', ''high''), (''high_name_similarity'', ''high''),
              (''high_name_similarity'', ''high''), (''name_recycling'', ''critical'')] \<and>
           calculate_risk ratio_pct r = Inr scored \<and> risk_score scored = 100 \<and>
           risk_level scored = Some ''CRITICAL'' \<and> phoenix_indicators scored = indicators l"
proof -
  let ?n = "lower (dict_get (company_name (company r)) [])"
  have st: "dict_get (company_status s1) [] \<in> set [''dissolved'', ''liquidation'', ''insolvency-proceedings'']"
    "dict_get (company_status s2) [] \<in> set [''dissolved'', ''liquidation'', ''insolvency-proceedings'']"
    "dict_get (company_status s3) [] \<in> set [''dissolved'', ''liquidation'', ''insolvency-proceedings'']"
    using dissolved by (simp_all add: dict_get_def)
  have s0: "status_rule (company r) initial_locals = initial_locals"
    using quiet_status by (simp add: status_rule_def Let_def)
  obtain l1 where loop: "similar_loop ratio_pct ?n initial_locals [s1, s2, s3] = Inr l1"
    and l1: "score l1 = 75" "name_recycling_dissolved l1 = [s1, s2, s3]"
      "kinds (indicators l1) =
         [(''high_name_similarity'', ''high''), (''high_name_similarity'', ''high''),
          (''high_name_similarity'', ''high'')]"
      "address_matches l1 = []"
    by (simp add:
        similar_step_high [where m = ratio_pct and n = ?n, OF st(1) titles(1) similar(1)]
        similar_step_high [where m = ratio_pct and n = ?n, OF st(2) titles(2) similar(2)]
        similar_step_high [where m = ratio_pct and n = ?n, OF st(3) titles(3) similar(3)]
        initial_locals_def)
  let ?l2 = "recycling_rule l1"
  have l2: "score ?l2 = 105"
    "kinds (indicators ?l2) = kinds (indicators l1) @ [(''name_recycling'', ''critical'')]"
    "address_matches ?l2 = []"
    using l1 by (simp_all add: recycling_rule_def Let_def)
  let ?l = "?l2\<lparr>address_matches := address_hits ratio_pct (company r) (similar_companies r)\<rparr>"
  have rules: "risk_rules ratio_pct r = Inr ?l"
    using loop s0
    by (simp add: risk_rules_def Let_def candidates [symmetric]
        officer_loop_quiet [OF quiet_officers] address_rule_quiet [OF quiet_address l2(3)]
        charges_rule_quiet [OF quiet_charges] quiet_insolvency insolvency_rule_def)
  show ?thesis
    using l2 l1
    by (simp add: rules calculate_risk_def store_assessment_def risk_level_of_def Let_def)
qed

lemma three_lookalikes_ratios:
  "85 \<le> difflib_pct (lower ''Abc Ltd'') (lower ''ABC LTD'')"
  "85 \<le> difflib_pct (lower ''Abc Ltd'') (lower ''Abc Ltd'')"
  "85 \<le> difflib_pct (lower ''Abc Ltd'') (lower ''abc ltd.'')"
  by code_simp+

lemma three_dissolved_lookalikes_clamped_witness:
  "\<exists>l scored. risk_rules difflib_pct three_lookalikes = Inr l \<and> score l = 105 \<and>
     kinds (indicators l) =
       [(''high_name_similarity'', ''high''), (''high_name_similarity'', ''high''),
        (''high_name_similarity'', ''high''), (''name_recycling'', ''critical'')] \<and>
     calculate_risk difflib_pct three_lookalikes = Inr scored \<and> risk_score scored = 100 \<and>
     risk_level scored = Some ''CRITICAL'' \<and> phoenix_indicators scored = indicators l"
proof (rule three_dissolved_lookalikes_clamped
    [where ?s1.0 = "dissolved_hit ''ABC LTD'' ''01''" and ?s2.0 = "dissolved_hit ''Abc Ltd'' ''02''"
       and ?s3.0 = "dissolved_hit ''abc ltd.'' ''03''"
       and ?t1.0 = "''ABC LTD''" and ?t2.0 = "''Abc Ltd''" and ?t3.0 = "''abc ltd.''"])
  show "dict_get (profile_status (company three_lookalikes)) [] \<notin> set suspicious_statuses"
    by (simp add: three_lookalikes_def active_profile_def dict_get_def suspicious_statuses_def)
  show "similar_companies three_lookalikes =
          [dissolved_hit ''ABC LTD'' ''01'', dissolved_hit ''Abc Ltd'' ''02'',
           dissolved_hit ''abc ltd.'' ''03'']"
    by (simp add: three_lookalikes_def)
  show "company_status (dissolved_hit ''ABC LTD'' ''01'') = Some ''dissolved''"
    "company_status (dissolved_hit ''Abc Ltd'' ''02'') = Some ''dissolved''"
    "company_status (dissolved_hit ''abc ltd.'' ''03'') = Some ''dissolved''"
    "title (dissolved_hit ''ABC LTD'' ''01'') = Some ''ABC LTD''"
    "title (dissolved_hit ''Abc Ltd'' ''02'') = Some ''Abc Ltd''"
    "title (dissolved_hit ''abc ltd.'' ''03'') = Some ''abc ltd.''"
    by (simp_all add: dissolved_hit_def)
  have nm: "dict_get (company_name (company three_lookalikes)) [] = ''Abc Ltd''"
    by (simp add: three_lookalikes_def active_profile_def dict_get_def)
  show "85 \<le> difflib_pct (lower (dict_get (company_name (company three_lookalikes)) [])) (lower ''ABC LTD'')"
    "85 \<le> difflib_pct (lower (dict_get (company_name (company three_lookalikes)) [])) (lower ''Abc Ltd'')"
    "85 \<le> difflib_pct (lower (dict_get (company_name (company three_lookalikes)) [])) (lower ''abc ltd.'')"
    unfolding nm by (rule three_lookalikes_ratios)+
  show "\<forall>officer \<in> set (officers three_lookalikes).
          dissolved_links officer < 2 \<and> liquidation_links officer < 1 \<and>
          (dissolved_links officer < 1 \<or> recent_formations officer < 1)"
    by (simp add: three_lookalikes_def director_def)
  show "length (address_hits difflib_pct (company three_lookalikes)
                 (similar_companies three_lookalikes)) < 3"
    by (simp add: three_lookalikes_def address_hits_def active_profile_def
        build_address_string_def)
  show "\<forall>ch \<in> set (charges three_lookalikes). charge_status ch \<noteq> Some ''outstanding''"
    by (simp add: three_lookalikes_def)
  show "insolvency three_lookalikes = []"
    by (simp add: three_lookalikes_def empty_report_def)
qed

text \<open>
  Claim C6, which the code does not meet. Three dissolved hits without a title, for a
  target without a name, are three candidates 100% similar to the target and the only
  signals of the bundle. The first of them makes the scorer read
  \<open>similar['title']\<close> for the description of its indicator (source line 257),
  which raises \<open>KeyError\<close>: no score is returned, where the claim says 100 and
  \<open>CRITICAL\<close>. The name of the hit was read three lines above with
  \<open>.get('title', '')\<close>.
\<close>

theorem three_untitled_lookalikes_raise:
  "85 \<le> difflib_pct (lower (dict_get (company_name (company three_untitled)) []))
           (lower (dict_get (title (untitled_hit ''00000002'')) [])) \<and>
   calculate_risk difflib_pct three_untitled = Inl (KeyError ''title'')"
  by code_simp

text \<open>
  The bands for a similar company that carries a title. Its status is dissolved,
  liquidation or insolvency-proceedings and its title is compared with the name of the
  target: a similarity of 85 or more adds 25 with a high-severity indicator, one from 70
  up to but not including 85 adds 15 with a medium-severity indicator, and one below 70
  adds nothing. Exactly 85 is high, exactly 70 is medium.
\<close>

lemma name_similarity_bands:
  assumes "dict_get (company_status s) [] \<in> set [''dissolved'', ''liquidation'', ''insolvency-proceedings'']"
    and "title s = Some t"
  shows "(85 \<le> ratio_pct n (lower t) \<longrightarrow>
            (\<exists>descr. similar_step ratio_pct n l s =
               Inr (add_indicator 25 ''high_name_similarity'' ''high'' descr
                     (l\<lparr>name_recycling_dissolved := name_recycling_dissolved l @ [s]\<rparr>))))
       \<and> (70 \<le> ratio_pct n (lower t) \<and> ratio_pct n (lower t) < 85 \<longrightarrow>
            (\<exists>descr. similar_step ratio_pct n l s =
               Inr (add_indicator 15 ''name_similarity'' ''medium'' descr
                     (l\<lparr>name_recycling_dissolved := name_recycling_dissolved l @ [s]\<rparr>))))
       \<and> (ratio_pct n (lower t) < 70 \<longrightarrow> similar_step ratio_pct n l s = Inr l)
       \<and> (ratio_pct n (lower t) = 85 \<longrightarrow>
            (\<exists>descr. similar_step ratio_pct n l s =
               Inr (add_indicator 25 ''high_name_similarity'' ''high'' descr
                     (l\<lparr>name_recycling_dissolved := name_recycling_dissolved l @ [s]\<rparr>))))
       \<and> (ratio_pct n (lower t) = 70 \<longrightarrow>
            (\<exists>descr. similar_step ratio_pct n l s =
               Inr (add_indicator 15 ''name_similarity'' ''medium'' descr
                     (l\<lparr>name_recycling_dissolved := name_recycling_dissolved l @ [s]\<rparr>))))"
proof -
  have high: "85 \<le> ratio_pct n (lower t) \<Longrightarrow>
      \<exists>descr. similar_step ratio_pct n l s =
         Inr (add_indicator 25 ''high_name_similarity'' ''high'' descr
               (l\<lparr>name_recycling_dissolved := name_recycling_dissolved l @ [s]\<rparr>))"
    using similar_step_high [where m = ratio_pct and n = n and l = l, OF assms] by blast
  have medium: "70 \<le> ratio_pct n (lower t) \<Longrightarrow> ratio_pct n (lower t) < 85 \<Longrightarrow>
      \<exists>descr. similar_step ratio_pct n l s =
         Inr (add_indicator 15 ''name_similarity'' ''medium'' descr
               (l\<lparr>name_recycling_dissolved := name_recycling_dissolved l @ [s]\<rparr>))"
    using similar_step_medium [where m = ratio_pct and n = n and l = l, OF assms] by blast
  have low: "ratio_pct n (lower t) < 70 \<Longrightarrow> similar_step ratio_pct n l s = Inr l"
    using similar_step_low [of ratio_pct n s l] assms(2) by (simp add: dict_get_def)
  show ?thesis
    using high medium low by simp
qed

lemma band_ratios:
  "difflib_pct ''abcdefghijklmnopqrst'' (lower ''ABCDEFGHIJKLMNOPQXYZ'') = 85"
  "difflib_pct ''abcdefghij'' (lower ''ABCDEFGXYZ'') = 70"
  "difflib_pct ''abcdefghij'' (lower ''ABCDEFXYZ'') < 70"
  by code_simp+

lemma name_similarity_bands_witness:
  "difflib_pct ''abcdefghijklmnopqrst'' (lower ''ABCDEFGHIJKLMNOPQXYZ'') = 85 \<and>
   (\<exists>descr. similar_step difflib_pct ''abcdefghijklmnopqrst'' initial_locals hit_85 =
      Inr (add_indicator 25 ''high_name_similarity'' ''high'' descr
            (initial_locals\<lparr>name_recycling_dissolved := [hit_85]\<rparr>))) \<and>
   difflib_pct ''abcdefghij'' (lower ''ABCDEFGXYZ'') = 70 \<and>
   (\<exists>descr. similar_step difflib_pct ''abcdefghij'' initial_locals hit_70 =
      Inr (add_indicator 15 ''name_similarity'' ''medium'' descr
            (initial_locals\<lparr>name_recycling_dissolved := [hit_70]\<rparr>))) \<and>
   difflib_pct ''abcdefghij'' (lower ''ABCDEFXYZ'') < 70 \<and>
   similar_step difflib_pct ''abcdefghij'' initial_locals hit_63 = Inr initial_locals"
proof -
  have st: "dict_get (company_status hit_85) [] \<in> set [''dissolved'', ''liquidation'', ''insolvency-proceedings'']"
    "dict_get (company_status hit_70) [] \<in> set [''dissolved'', ''liquidation'', ''insolvency-proceedings'']"
    "dict_get (company_status hit_63) [] \<in> set [''dissolved'', ''liquidation'', ''insolvency-proceedings'']"
    by (simp_all add: hit_85_def hit_70_def hit_63_def dissolved_hit_def dict_get_def)
  have ti: "title hit_85 = Some ''ABCDEFGHIJKLMNOPQXYZ''" "title hit_70 = Some ''ABCDEFGXYZ''"
    "title hit_63 = Some ''ABCDEFXYZ''"
    by (simp_all add: hit_85_def hit_70_def hit_63_def dissolved_hit_def)
  have nr: "name_recycling_dissolved initial_locals = []"
    by (simp add: initial_locals_def)
  from name_similarity_bands [where ratio_pct = difflib_pct and n = "''abcdefghijklmnopqrst''"
      and l = initial_locals, OF st(1) ti(1)]
    name_similarity_bands [where ratio_pct = difflib_pct and n = "''abcdefghij''"
      and l = initial_locals, OF st(2) ti(2)]
    name_similarity_bands [where ratio_pct = difflib_pct and n = "''abcdefghij''"
      and l = initial_locals, OF st(3) ti(3)]
    band_ratios nr
  show ?thesis by simp
qed

text \<open>
  Claim C7, which the code does not meet. A dissolved hit without a title, compared with
  the empty name of a target without a name, has a similarity of 100. The loop body does
  not add 25 with a high-severity indicator: it raises \<open>KeyError\<close> on
  \<open>similar['title']\<close> (source line 257; line 264 does the same from 70 to 85).
\<close>

theorem untitled_lookalike_raises:
  "difflib_pct [] (lower (dict_get (title (untitled_hit ''00000002'')) [])) = 100 \<and>
   dict_get (company_status (untitled_hit ''00000002'')) [] = ''dissolved'' \<and>
   similar_step difflib_pct [] initial_locals (untitled_hit ''00000002'') =
     Inl (KeyError ''title'')"
  by code_simp

section \<open>Properties of the collector\<close>

subsection \<open>The loop over the companies linked to an officer\<close>


lemma link_step_searches:
  "searches (snd (link_step w nm (e, st) h)) = searches st"
  by (simp add: link_step_def Let_def split: option.splits)

lemma link_step_rep:
  "without_flags (rep (snd (link_step w nm (e, st) h))) = without_flags (rep st)"
  by (simp add: link_step_def Let_def without_flags_def split: option.splits)




lemma link_loop_searches:
  "searches (snd (foldl (link_step w nm) (e, st) hs)) = searches st"
proof (induction hs arbitrary: e st)
  case Nil
  show ?case by simp
next
  case (Cons h hs)
  obtain e1 st1 where s: "link_step w nm (e, st) h = (e1, st1)"
    by (cases "link_step w nm (e, st) h")
  have "searches st1 = searches st" using link_step_searches [of w nm e st h] s by simp
  with Cons.IH [of e1 st1] s show ?case by simp
qed

lemma link_loop_rep:
  "without_flags (rep (snd (foldl (link_step w nm) (e, st) hs))) = without_flags (rep st)"
proof (induction hs arbitrary: e st)
  case Nil
  show ?case by simp
next
  case (Cons h hs)
  obtain e1 st1 where s: "link_step w nm (e, st) h = (e1, st1)"
    by (cases "link_step w nm (e, st) h")
  have "without_flags (rep st1) = without_flags (rep st)"
    using link_step_rep [of w nm e st h] s by simp
  with Cons.IH [of e1 st1] s show ?case by simp
qed



subsection \<open>The loop over the officers\<close>

lemma officers_without_flags [simp]: "officers (without_flags r) = officers r"
  by (simp add: without_flags_def)

lemma core_without_flags: "core r = (without_flags r)\<lparr>officers := []\<rparr>"
  by (simp add: core_def without_flags_def)

lemma core_fields [simp]:
  "company (core r) = company r" "filing_history (core r) = filing_history r"
  "psc (core r) = psc r" "charges (core r) = charges r" "insolvency (core r) = insolvency r"
  "similar_companies (core r) = similar_companies r"
  by (simp_all add: core_def)

lemma officer_scan_effect:
  fixes w st item
  defines "hits \<equiv> items_of (search_companies w (searches st) (dict_get (item_name item) ''(unknown)''))"
  defines "res \<equiv> foldl (link_step w (dict_get (item_name item) ''(unknown)''))
                     (new_officer_entry item, st\<lparr>searches := Suc (searches st)\<rparr>) hits"
  shows "officers (rep (officer_scan w st item)) = officers (rep st) @ [fst res]"
    and "searches (officer_scan w st item) = Suc (searches st)"
    and "core (rep (officer_scan w st item)) = core (rep st)"
proof -
  have scan: "officer_scan w st item =
      (snd res)\<lparr>rep := (rep (snd res))\<lparr>officers := officers (rep (snd res)) @ [fst res]\<rparr>\<rparr>"
    by (simp add: officer_scan_def Let_def res_def hits_def split: prod.splits)
  have wf: "without_flags (rep (snd res)) = without_flags (rep st)"
    unfolding res_def using link_loop_rep [of w _ _ "st\<lparr>searches := Suc (searches st)\<rparr>"]
    by simp
  have off: "officers (rep (snd res)) = officers (rep st)"
    using arg_cong [OF wf, of officers] by simp
  show "officers (rep (officer_scan w st item)) = officers (rep st) @ [fst res]"
    by (simp add: scan off)
  show "searches (officer_scan w st item) = Suc (searches st)"
    unfolding scan res_def
    using link_loop_searches [of w _ _ "st\<lparr>searches := Suc (searches st)\<rparr>"] by simp
  have "core (rep (officer_scan w st item)) = core (rep (snd res))"
    by (simp add: scan core_def)
  also have "\<dots> = core (rep st)" by (simp add: core_without_flags wf)
  finally show "core (rep (officer_scan w st item)) = core (rep st)" .
qed

lemma officer_loop_effect:
  "searches (foldl (officer_scan w) st its) = searches st + length its \<and>
   core (rep (foldl (officer_scan w) st its)) = core (rep st) \<and>
   length (officers (rep (foldl (officer_scan w) st its))) =
     length (officers (rep st)) + length its"
proof (induction its arbitrary: st)
  case Nil
  show ?case by simp
next
  case (Cons item its)
  from Cons.IH [of "officer_scan w st item"] officer_scan_effect [of w st item]
  show ?case by simp
qed





subsection \<open>The two searches for similar companies\<close>

lemma items_of_error: "is_error d \<Longrightarrow> items_of d = []"
  by (cases d) (simp_all add: is_error_def items_of_def)

lemma name_search_effect:
  "rep (name_search w n c st) =
     (rep st)\<lparr>similar_companies := similar_companies (rep st) @ kept_name_hits w n c (searches st)\<rparr>"
  "searches (name_search w n c st) =
     searches st + (if dict_get (company_name c) [] = [] then 0 else 1)"
  by (simp_all add: name_search_def kept_name_hits_def Let_def)

lemma address_search_effect:
  "rep (address_search w n c st) =
     (rep st)\<lparr>similar_companies :=
        foldl (address_step n) (similar_companies (rep st))
          (if build_address_string c = [] then []
           else items_of (search_companies w (searches st) (build_address_string c)))\<rparr>"
  by (simp add: address_search_def Let_def)



subsection \<open>The collected report\<close>

lemma fetch_sections_fields:
  "company (fetch_sections w n c) = c"
  "officers (fetch_sections w n c) = []"
  "filing_history (fetch_sections w n c) = items_of (get_filing_history w n)"
  "psc (fetch_sections w n c) = items_of (get_psc w n)"
  "charges (fetch_sections w n c) = items_of (get_charges w n)"
  "insolvency (fetch_sections w n c) =
     (case get_insolvency w n of ErrorDict e sc \<Rightarrow> [] | Json d \<Rightarrow> d)"
  "similar_companies (fetch_sections w n c) = []"
  by (simp_all add: fetch_sections_def empty_report_def Let_def split: api_dict.splits)

lemma collect_report_Json:
  assumes "get_company w n = Json c"
  shows "collect_report w n =
     Inr (rep (address_search w n c (name_search w n c
       (foldl (officer_scan w) \<lparr>rep = fetch_sections w n c, ticks = 0, searches = 0\<rparr>
          (items_of (get_officers w n))))))"
  using assms by (simp add: collect_report_def Let_def)

lemma collected_fields:
  assumes "get_company w n = Json c"
  shows "\<exists>b. collect_report w n = Inr b \<and> company b = c \<and>
     length (officers b) = length (items_of (get_officers w n)) \<and>
     filing_history b = items_of (get_filing_history w n) \<and>
     psc b = items_of (get_psc w n) \<and>
     charges b = items_of (get_charges w n) \<and>
     insolvency b = (case get_insolvency w n of ErrorDict e sc \<Rightarrow> [] | Json d \<Rightarrow> d) \<and>
     similar_companies b =
       foldl (address_step n) (kept_name_hits w n c (length (items_of (get_officers w n))))
         (if build_address_string c = [] then []
          else items_of (search_companies w
                 (length (items_of (get_officers w n)) +
                    (if dict_get (company_name c) [] = [] then 0 else 1))
                 (build_address_string c)))"
proof -
  let ?init = "\<lparr>rep = fetch_sections w n c, ticks = 0, searches = 0\<rparr>"
  let ?st = "foldl (officer_scan w) ?init (items_of (get_officers w n))"
  let ?b = "rep (address_search w n c (name_search w n c ?st))"
  from officer_loop_effect [of w ?init "items_of (get_officers w n)"]
  have s: "searches ?st = length (items_of (get_officers w n))"
    and k: "core (rep ?st) = core (fetch_sections w n c)"
    and l: "length (officers (rep ?st)) = length (items_of (get_officers w n))"
    by (simp_all add: fetch_sections_fields)
  have f: "company (rep ?st) = c"
    "filing_history (rep ?st) = items_of (get_filing_history w n)"
    "psc (rep ?st) = items_of (get_psc w n)"
    "charges (rep ?st) = items_of (get_charges w n)"
    "insolvency (rep ?st) = (case get_insolvency w n of ErrorDict e sc \<Rightarrow> [] | Json d \<Rightarrow> d)"
    "similar_companies (rep ?st) = []"
    using arg_cong [OF k, of company] arg_cong [OF k, of filing_history] arg_cong [OF k, of psc]
      arg_cong [OF k, of charges] arg_cong [OF k, of insolvency]
      arg_cong [OF k, of similar_companies]
    by (simp_all add: fetch_sections_fields)
  have "collect_report w n = Inr ?b" using assms by (rule collect_report_Json)
  moreover have "company ?b = c" "length (officers ?b) = length (items_of (get_officers w n))"
    "filing_history ?b = items_of (get_filing_history w n)"
    "psc ?b = items_of (get_psc w n)" "charges ?b = items_of (get_charges w n)"
    "insolvency ?b = (case get_insolvency w n of ErrorDict e sc \<Rightarrow> [] | Json d \<Rightarrow> d)"
    by (simp_all add: address_search_effect name_search_effect f l)
  moreover have "similar_companies ?b =
       foldl (address_step n) (kept_name_hits w n c (length (items_of (get_officers w n))))
         (if build_address_string c = [] then []
          else items_of (search_companies w
                 (length (items_of (get_officers w n)) +
                    (if dict_get (company_name c) [] = [] then 0 else 1))
                 (build_address_string c)))"
    by (simp add: address_search_effect name_search_effect f s)
  ultimately show ?thesis by blast
qed


lemma calculate_risk_returns:
  assumes "\<forall>s \<in> set (similar_companies b). title s \<noteq> None"
  shows "\<exists>scored. calculate_risk m b = Inr scored"
proof (cases "risk_rules m b")
  case (Inl e)
  from risk_rules_Inl [OF Inl] assms show ?thesis by blast
next
  case (Inr l)
  then show ?thesis by (simp add: calculate_risk_def)
qed

lemma api_request_error:
  "is_error (api_request http ep) \<longleftrightarrow>
     (case http (PHOENIX_BASE_URL @ ep) of
        RequestException e \<Rightarrow> True
      | Response status_code text js \<Rightarrow> status_code \<noteq> 200)"
  by (simp add: api_request_def is_error_def split: http_outcome.splits)





text \<open>
  What the scan does on errors. A profile request that ends in an error dictionary (an
  exception of the request, a 404 or any status other than 200) makes the scan return
  that error and no bundle. With a profile, the scan always goes on to the scorer: an
  error on the officers, the filing history, the PSC list, the charges or the insolvency
  record leaves that section of the bundle empty; an error on the search for an officer
  leaves the entry of the officer with no linked company and its counters at 0; an error
  on the search by name or by address adds no similar company. The scorer then returns
  the scored bundle, with the same sections, whenever the similar companies carry a
  title.
\<close>

lemma secondary_failures_degrade:
  "(\<forall>e sc. get_company w n = ErrorDict e sc \<longrightarrow>
      deep_scan_company w ratio_pct n = Inr (ScanError e)) \<and>
   (\<forall>c. get_company w n = Json c \<longrightarrow>
      (\<exists>b. collect_report w n = Inr b \<and> company b = c \<and>
           (is_error (get_officers w n) \<longrightarrow> officers b = []) \<and>
           (is_error (get_filing_history w n) \<longrightarrow> filing_history b = []) \<and>
           (is_error (get_psc w n) \<longrightarrow> psc b = []) \<and>
           (is_error (get_charges w n) \<longrightarrow> charges b = []) \<and>
           (is_error (get_insolvency w n) \<longrightarrow> insolvency b = []) \<and>
           deep_scan_company w ratio_pct n = map_sum id ScanReport (calculate_risk ratio_pct b) \<and>
           ((\<forall>s \<in> set (similar_companies b). title s \<noteq> None) \<longrightarrow>
              (\<exists>scored. deep_scan_company w ratio_pct n = Inr (ScanReport scored) \<and>
                 officers scored = officers b \<and> filing_history scored = filing_history b \<and>
                 psc scored = psc b \<and> charges scored = charges b \<and>
                 insolvency scored = insolvency b \<and>
                 similar_companies scored = similar_companies b)))) \<and>
   (is_error (search_companies w (searches st) (dict_get (item_name item) ''(unknown)'')) \<longrightarrow>
      officers (rep (officer_scan w st item)) = officers (rep st) @ [new_officer_entry item]) \<and>
   (is_error (search_companies w (searches st) (dict_get (company_name c') [])) \<longrightarrow>
      rep (name_search w n c' st) = rep st) \<and>
   (is_error (search_companies w (searches st) (build_address_string c')) \<longrightarrow>
      rep (address_search w n c' st) = rep st) \<and>
   (is_error (api_request http ep) \<longleftrightarrow>
      (case http (PHOENIX_BASE_URL @ ep) of
         RequestException e \<Rightarrow> True
       | Response status_code text js \<Rightarrow> status_code \<noteq> 200))"
proof (intro conjI)
  show "\<forall>e sc. get_company w n = ErrorDict e sc \<longrightarrow>
      deep_scan_company w ratio_pct n = Inr (ScanError e)"
    by (simp add: deep_scan_company_def collect_report_def)
next
  show "\<forall>c. get_company w n = Json c \<longrightarrow>
      (\<exists>b. collect_report w n = Inr b \<and> company b = c \<and>
           (is_error (get_officers w n) \<longrightarrow> officers b = []) \<and>
           (is_error (get_filing_history w n) \<longrightarrow> filing_history b = []) \<and>
           (is_error (get_psc w n) \<longrightarrow> psc b = []) \<and>
           (is_error (get_charges w n) \<longrightarrow> charges b = []) \<and>
           (is_error (get_insolvency w n) \<longrightarrow> insolvency b = []) \<and>
           deep_scan_company w ratio_pct n = map_sum id ScanReport (calculate_risk ratio_pct b) \<and>
           ((\<forall>s \<in> set (similar_companies b). title s \<noteq> None) \<longrightarrow>
              (\<exists>scored. deep_scan_company w ratio_pct n = Inr (ScanReport scored) \<and>
                 officers scored = officers b \<and> filing_history scored = filing_history b \<and>
                 psc scored = psc b \<and> charges scored = charges b \<and>
                 insolvency scored = insolvency b \<and>
                 similar_companies scored = similar_companies b)))"
  proof (intro allI impI)
    fix c assume c: "get_company w n = Json c"
    from collected_fields [OF c] obtain b where
      b: "collect_report w n = Inr b" and co: "company b = c"
      and lo: "length (officers b) = length (items_of (get_officers w n))"
      and fh: "filing_history b = items_of (get_filing_history w n)"
      and ps: "psc b = items_of (get_psc w n)"
      and ch: "charges b = items_of (get_charges w n)"
      and ins: "insolvency b = (case get_insolvency w n of ErrorDict e sc \<Rightarrow> [] | Json d \<Rightarrow> d)"
      by blast
    have scan: "deep_scan_company w ratio_pct n = map_sum id ScanReport (calculate_risk ratio_pct b)"
      by (simp add: deep_scan_company_def b split: sum.splits)
    have o: "is_error (get_officers w n) \<longrightarrow> officers b = []"
    proof
      assume "is_error (get_officers w n)"
      then have "items_of (get_officers w n) = []" by (rule items_of_error)
      with lo show "officers b = []" by simp
    qed
    have i: "is_error (get_insolvency w n) \<longrightarrow> insolvency b = []"
      using ins by (simp add: is_error_def split: api_dict.splits)
    have t: "(\<forall>s \<in> set (similar_companies b). title s \<noteq> None) \<longrightarrow>
              (\<exists>scored. deep_scan_company w ratio_pct n = Inr (ScanReport scored) \<and>
                 officers scored = officers b \<and> filing_history scored = filing_history b \<and>
                 psc scored = psc b \<and> charges scored = charges b \<and>
                 insolvency scored = insolvency b \<and>
                 similar_companies scored = similar_companies b)"
    proof
      assume "\<forall>s \<in> set (similar_companies b). title s \<noteq> None"
      from calculate_risk_returns [OF this] obtain scored where
        s: "calculate_risk ratio_pct b = Inr scored" by blast
      then have "officers scored = officers b \<and> filing_history scored = filing_history b \<and>
                 psc scored = psc b \<and> charges scored = charges b \<and>
                 insolvency scored = insolvency b \<and>
                 similar_companies scored = similar_companies b"
        by (auto simp: calculate_risk_Inr store_assessment_frame)
      with s scan show "\<exists>scored. deep_scan_company w ratio_pct n = Inr (ScanReport scored) \<and>
                 officers scored = officers b \<and> filing_history scored = filing_history b \<and>
                 psc scored = psc b \<and> charges scored = charges b \<and>
                 insolvency scored = insolvency b \<and>
                 similar_companies scored = similar_companies b"
        by simp
    qed
    from b co o fh ps ch i scan t
    show "\<exists>b. collect_report w n = Inr b \<and> company b = c \<and>
           (is_error (get_officers w n) \<longrightarrow> officers b = []) \<and>
           (is_error (get_filing_history w n) \<longrightarrow> filing_history b = []) \<and>
           (is_error (get_psc w n) \<longrightarrow> psc b = []) \<and>
           (is_error (get_charges w n) \<longrightarrow> charges b = []) \<and>
           (is_error (get_insolvency w n) \<longrightarrow> insolvency b = []) \<and>
           deep_scan_company w ratio_pct n = map_sum id ScanReport (calculate_risk ratio_pct b) \<and>
           ((\<forall>s \<in> set (similar_companies b). title s \<noteq> None) \<longrightarrow>
              (\<exists>scored. deep_scan_company w ratio_pct n = Inr (ScanReport scored) \<and>
                 officers scored = officers b \<and> filing_history scored = filing_history b \<and>
                 psc scored = psc b \<and> charges scored = charges b \<and>
                 insolvency scored = insolvency b \<and>
                 similar_companies scored = similar_companies b))"
      by (simp add: items_of_error)
  qed
next
  show "is_error (search_companies w (searches st) (dict_get (item_name item) ''(unknown)'')) \<longrightarrow>
      officers (rep (officer_scan w st item)) = officers (rep st) @ [new_officer_entry item]"
    using officer_scan_effect(1) [of w st item] by (simp add: items_of_error)
next
  show "is_error (search_companies w (searches st) (dict_get (company_name c') [])) \<longrightarrow>
      rep (name_search w n c' st) = rep st"
    by (simp add: name_search_effect kept_name_hits_def items_of_error)
next
  show "is_error (search_companies w (searches st) (build_address_string c')) \<longrightarrow>
      rep (address_search w n c' st) = rep st"
    by (simp add: address_search_effect items_of_error)
next
  show "is_error (api_request http ep) \<longleftrightarrow>
      (case http (PHOENIX_BASE_URL @ ep) of
         RequestException e \<Rightarrow> True
       | Response status_code text js \<Rightarrow> status_code \<noteq> 200)"
    by (rule api_request_error)
qed

lemma demo_outcomes:
  "get_company down_world ''00000001'' = ErrorDict ''Connection refused'' None"
  "get_company demo_world ''00000001'' = Json demo_profile"
  "is_error (get_filing_history demo_world ''00000001'')"
  "is_error (get_psc demo_world ''00000001'')"
  "is_error (get_insolvency demo_world ''00000001'')"
  by code_simp+

lemma demo_titles:
  "(case collect_report demo_world ''00000001'' of
      Inl e \<Rightarrow> False
    | Inr b \<Rightarrow> list_all (\<lambda>s. title s \<noteq> None) (similar_companies b))"
  by code_simp

lemma secondary_failures_degrade_witness:
  "deep_scan_company down_world difflib_pct ''00000001'' = Inr (ScanError ''Connection refused'') \<and>
   is_error (get_filing_history demo_world ''00000001'') \<and>
   is_error (get_psc demo_world ''00000001'') \<and>
   is_error (get_insolvency demo_world ''00000001'') \<and>
   (\<exists>scored. deep_scan_company demo_world difflib_pct ''00000001'' = Inr (ScanReport scored) \<and>
      filing_history scored = [] \<and> psc scored = [] \<and> insolvency scored = [])"
proof -
  have down: "deep_scan_company down_world difflib_pct ''00000001'' =
      Inr (ScanError ''Connection refused'')"
    using secondary_failures_degrade [where w = down_world and n = "''00000001''"
        and ratio_pct = difflib_pct]
      demo_outcomes(1)
    by blast
  from secondary_failures_degrade [where w = demo_world and n = "''00000001''"
      and ratio_pct = difflib_pct] demo_outcomes(2)
  obtain b where b: "collect_report demo_world ''00000001'' = Inr b"
    and fh: "is_error (get_filing_history demo_world ''00000001'') \<longrightarrow> filing_history b = []"
    and ps: "is_error (get_psc demo_world ''00000001'') \<longrightarrow> psc b = []"
    and ins: "is_error (get_insolvency demo_world ''00000001'') \<longrightarrow> insolvency b = []"
    and t: "(\<forall>s \<in> set (similar_companies b). title s \<noteq> None) \<longrightarrow>
              (\<exists>scored. deep_scan_company demo_world difflib_pct ''00000001'' =
                   Inr (ScanReport scored) \<and>
                 officers scored = officers b \<and> filing_history scored = filing_history b \<and>
                 psc scored = psc b \<and> charges scored = charges b \<and>
                 insolvency scored = insolvency b \<and>
                 similar_companies scored = similar_companies b)"
    by blast
  have "\<forall>s \<in> set (similar_companies b). title s \<noteq> None"
    using demo_titles b by (simp add: list_all_iff)
  with t obtain scored where
    "deep_scan_company demo_world difflib_pct ''00000001'' = Inr (ScanReport scored)"
    "filing_history scored = filing_history b" "psc scored = psc b"
    "insolvency scored = insolvency b"
    by blast
  with fh ps ins demo_outcomes(3-5) down show ?thesis by simp
qed

text \<open>
  Claim C4, which the code does not meet. The profile is fetched, the request for the
  officers fails, and the search by address returns a dissolved hit without a title for a
  company without a name. The officers are left empty and the scan goes on to the scorer,
  which raises \<open>KeyError\<close> on \<open>similar['title']\<close> (source line 257);
  \<open>deep_scan_company\<close> does not catch it (line 560), so the scan fails instead
  of ending in a scored bundle.
\<close>

theorem scan_fails_on_untitled_hit:
  "get_company untitled_world ''00000001'' = Json nameless_profile \<and>
   is_error (get_officers untitled_world ''00000001'') \<and>
   deep_scan_company untitled_world difflib_pct ''00000001'' = Inl (KeyError ''title'')"
  by code_simp

end
